theory Spec2Isabelle
  imports Complex_Main "HOL-Library.AList" "HOL-Library.List_Lexorder" "HOL-Library.Char_ord"
    "HOL-Library.Sublist"
begin

section \<open>Python values shared by both task modules\<close>

text \<open>
  The two source files are \<^verbatim>\<open>fairseq/tasks/multilingual_translation.py\<close> and
  \<^verbatim>\<open>fairseq/tasks/bt_translation.py\<close>. Python exceptions are values of \<open>error\<close>;
  a function that can raise returns \<open>error + 'a\<close> with \<open>Inl\<close> for the exception.
  Python floats are modelled as \<open>real\<close> (no rounding), Python ints as \<open>int\<close>,
  Python strings as \<open>string\<close> over ASCII characters.
\<close>

datatype error =
    AssertionError
  | ValueError string
  | KeyError string
  | FileNotFoundError string
  | TypeError string
  | AttributeError string
  | IndexError
  | ZeroDivisionError
  | NameError string

text \<open>Sequencing of computations that can raise: the first exception wins.\<close>

definition bind :: "error + 'a \<Rightarrow> ('a \<Rightarrow> error + 'b) \<Rightarrow> error + 'b" where
  "bind m f = (case m of Inl e \<Rightarrow> Inl e | Inr v \<Rightarrow> f v)"

text \<open>A list comprehension whose element expression can raise.\<close>

fun map_err :: "('a \<Rightarrow> error + 'b) \<Rightarrow> 'a list \<Rightarrow> error + 'b list" where
  "map_err f [] = Inr []"
| "map_err f (x # xs) = bind (f x) (\<lambda>y. bind (map_err f xs) (\<lambda>ys. Inr (y # ys)))"

text \<open>
  \<^verbatim>\<open>str.split(sep)\<close> for a one-character separator: every occurrence of the
  separator cuts, empty pieces are kept, and the result always has at least one piece.
\<close>

fun split_str :: "char \<Rightarrow> string \<Rightarrow> string list" where
  "split_str sep [] = [[]]"
| "split_str sep (c # cs) =
     (if c = sep then [] # split_str sep cs
      else (case split_str sep cs of
              [] \<Rightarrow> [[c]]
            | w # ws \<Rightarrow> (c # w) # ws))"

text \<open>\<^verbatim>\<open>str.isdigit()\<close> on ASCII strings: non-empty and every character a decimal digit.\<close>

definition is_digit_char :: "char \<Rightarrow> bool" where
  "is_digit_char c = (c \<in> set ''0123456789'')"

definition isdigit :: "string \<Rightarrow> bool" where
  "isdigit s = (s \<noteq> [] \<and> list_all is_digit_char s)"

text \<open>\<^verbatim>\<open>int(k)\<close> on a string of decimal digits (the only strings it is applied to
  once \<^verbatim>\<open>k.isdigit()\<close> has been asserted).\<close>

definition digit_val :: "char \<Rightarrow> int" where
  "digit_val c = int (of_char c) - 48"

definition int_of_digits :: "string \<Rightarrow> int" where
  "int_of_digits s = foldl (\<lambda>a c. 10 * a + digit_val c) 0 s"

section \<open>Lambda scheduler (bt\_translation.py)\<close>

text \<open>
  \<^verbatim>\<open>parse_lambda_config(x)\<close>. The builtin \<^verbatim>\<open>float\<close> is the parameter \<open>flt\<close>: it
  returns the parsed number or raises. The three assertions are checked in the source's
  order, before any value token is converted.
\<close>

type_synonym schedule = "(int \<times> real) list"

definition steps_increasing :: "string list list \<Rightarrow> bool" where
  "steps_increasing split =
     list_all (\<lambda>i. int_of_digits (split ! i ! 0) < int_of_digits (split ! (i + 1) ! 0))
       [0 ..< length split - 1]"

definition parse_lambda_config ::
  "(string \<Rightarrow> error + real) \<Rightarrow> string \<Rightarrow> error + (real \<times> schedule option)" where
  "parse_lambda_config flt x =
     (let split = split_str (CHR '','') x in
      if length split = 1 then
        bind (flt x) (\<lambda>v. Inr (v, None))
      else
        (let split2 = map (split_str (CHR '':'')) split in
         if \<not> list_all (\<lambda>s. length s = 2) split2 then Inl AssertionError
         else if \<not> list_all (\<lambda>s. isdigit (s ! 0)) split2 then Inl AssertionError
         else if \<not> steps_increasing split2 then Inl AssertionError
         else
           bind (flt (split2 ! 0 ! 1)) (\<lambda>v0.
           bind (map_err (\<lambda>s. bind (flt (s ! 1)) (\<lambda>v. Inr (int_of_digits (s ! 0), v))) split2)
             (\<lambda>cfg. Inr (v0, Some cfg)))))"

text \<open>
  An instance of the builtin for plain decimal literals (optional sign, digits, optional
  fraction). Python's \<^verbatim>\<open>float\<close> accepts more forms (exponents, \<^verbatim>\<open>inf\<close>, \<^verbatim>\<open>nan\<close>,
  underscores, surrounding blanks); this instance reports \<open>ValueError\<close> for those and only
  serves to run the parser on concrete configuration strings.
\<close>

definition float_decimal :: "string \<Rightarrow> error + real" where
  "float_decimal s =
     (let sgn_body = (case s of
                        [] \<Rightarrow> (1, [])
                      | c # cs \<Rightarrow> if c = CHR ''-'' then (- 1, cs)
                                  else if c = CHR ''+'' then (1, cs) else (1, s));
          sgn = fst sgn_body;
          parts = split_str (CHR ''.'') (snd sgn_body)
      in case parts of
           [ip] \<Rightarrow> if isdigit ip then Inr (sgn * real_of_int (int_of_digits ip))
                   else Inl (ValueError ''could not convert string to float'')
         | [ip, fp] \<Rightarrow>
             if (ip = [] \<or> isdigit ip) \<and> (fp = [] \<or> isdigit fp) \<and> \<not> (ip = [] \<and> fp = [])
             then Inr (sgn * (real_of_int (int_of_digits ip)
                              + real_of_int (int_of_digits fp) / 10 ^ length fp))
             else Inl (ValueError ''could not convert string to float'')
         | _ \<Rightarrow> Inl (ValueError ''could not convert string to float''))"

text \<open>
  \<^verbatim>\<open>lambda_step_func(config, n_iter)\<close>, the local function of \<^verbatim>\<open>update_step\<close>.
  \<^verbatim>\<open>config[-1]\<close> raises \<open>IndexError\<close> on an empty list; both assertions are kept.
\<close>

definition lambda_step_func :: "schedule \<Rightarrow> int \<Rightarrow> error + real" where
  "lambda_step_func config n_iter =
     (let ranges = filter (\<lambda>i. fst (config ! i) \<le> n_iter \<and> n_iter < fst (config ! (i + 1)))
                     [0 ..< length config - 1] in
      if length ranges = 0 then
        (if config = [] then Inl IndexError
         else if \<not> (n_iter \<ge> fst (last config)) then Inl AssertionError
         else Inr (snd (last config)))
      else if length ranges \<noteq> 1 then Inl AssertionError
      else
        (let i = ranges ! 0;
             x_a = fst (config ! i); y_a = snd (config ! i);
             x_b = fst (config ! (i + 1)); y_b = snd (config ! (i + 1))
         in Inr (y_a + real_of_int (n_iter - x_a) * (y_b - y_a) / real_of_int (x_b - x_a))))"

section \<open>Data model of the tasks\<close>

subsection \<open>Collaborator values\<close>

text \<open>
  Modelled from the spec: the \<^verbatim>\<open>Dictionary\<close> collaborator (its class is not among the
  two source files). The spec requires index lookup, the padding, end-of-sequence and
  unknown-token indices, and special-symbol registration. A symbol's index is its position
  in \<open>symbols\<close>; a symbol that is not registered has the unknown-token index.
\<close>

record dictionary =
  symbols :: "string list"
  pad_index :: nat
  eos_index :: nat
  unk_index :: nat

fun index_of :: "'a \<Rightarrow> 'a list \<Rightarrow> nat" where
  "index_of x [] = 0"
| "index_of x (y # ys) = (if x = y then 0 else Suc (index_of x ys))"

definition dict_index :: "dictionary \<Rightarrow> string \<Rightarrow> nat" where
  "dict_index d w = (if w \<in> set (symbols d) then index_of w (symbols d) else unk_index d)"

definition add_symbol :: "dictionary \<Rightarrow> string \<Rightarrow> dictionary" where
  "add_symbol d word = (if word \<in> set (symbols d) then d else d\<lparr>symbols := symbols d @ [word]\<rparr>)"

text \<open>
  \<^verbatim>\<open>SequenceGenerator(tgt_dict, beam_size, max_len_a, max_len_b)\<close> is kept as the record of
  its constructor arguments, and the closure \<^verbatim>\<open>backtranslate_fn\<close> of
  \<^verbatim>\<open>BtTranslationTask.build_model\<close> as the record of the three default arguments it binds
  when it is defined. A sub-model is an opaque handle.
\<close>

type_synonym module = nat

record sequence_generator =
  sg_tgt_dict :: dictionary
  beam_size :: int
  max_len_a :: real
  max_len_b :: real

record backtranslate_fn =
  bt_model :: module
  bos_token :: nat
  bt_sequence_generator :: sequence_generator

text \<open>
  The keyword arguments of \<^verbatim>\<open>TransformEosLangPairDataset\<close>, and the dataset objects the
  tasks build, each constructor holding the arguments of the Python constructor call
  (\<^verbatim>\<open>LanguagePairDataset\<close>: source dataset, source dictionary, target dataset, target
  dictionary, left\_pad\_source, left\_pad\_target, max\_source\_positions,
  max\_target\_positions; the size arrays are read off the datasets and are not repeated).
\<close>

record transform_eos =
  src_eos :: "nat option"
  new_src_eos :: "nat option"
  tgt_bos :: "nat option"
  new_tgt_bos :: "nat option"
  new_src_eos_list :: "nat list option"
  new_src_eos_list_probs :: "real list option"
  tr_split :: string

datatype dataset =
    IndexedDataset string
  | LanguagePairDataset dataset dictionary "dataset option" "dictionary option" bool bool
      "int option" "int option"
  | TransformEosLangPairDataset dataset transform_eos
  | BacktranslationDataset dataset backtranslate_fn dictionary dictionary dataset

text \<open>\<^verbatim>\<open>RoundRobinZipDatasets(OrderedDict(...), eval_key=...)\<close>.\<close>

record round_robin =
  rr_datasets :: "(string \<times> dataset) list"
  eval_key :: "string option"

text \<open>
  \<^verbatim>\<open>OrderedDict\<close> built from a list of pairs: a repeated key keeps its first position
  and takes the last value.
\<close>

definition ordered_dict :: "('k \<times> 'v) list \<Rightarrow> ('k \<times> 'v) list" where
  "ordered_dict kvs = foldl (\<lambda>d kv. AList.update (fst kv) (snd kv) d) [] kvs"

text \<open>A FairseqMultiModel exposes \<^verbatim>\<open>model.models[key]\<close>; any other model does not.\<close>

record model =
  is_multi_model :: bool
  models :: "(string \<times> module) list"

subsection \<open>Arguments and task state\<close>

text \<open>
  The argparse namespace after \<^verbatim>\<open>prepare\<close>. List-valued attributes are references
  into the task's \<open>heap\<close> of list objects: \<^verbatim>\<open>self.lang_pairs = args.lang_pairs\<close> shares one
  list, and \<^verbatim>\<open>list.append\<close> is seen through every name of it.
\<close>

type_synonym ref = nat

record namespace =
  data :: string
  arg_lang_pairs :: ref
  source_lang :: "string option"
  target_lang :: "string option"
  raw_text :: bool
  left_pad_source :: bool
  left_pad_target :: bool
  max_source_positions :: int
  max_target_positions :: int
  encoder_langtok :: "string option"
  decoder_langtok :: bool
  sample_tag_prob :: real
  data_actor :: string
  extra_data_actor :: string
  lambda_parallel_config :: string
  lambda_otf_bt_config :: string
  lambda_denoising_config :: string
  bt_max_len_a :: real
  bt_max_len_b :: real
  bt_beam_size :: int
  bt_dds :: bool
  data_actor_lr :: "real list"

text \<open>\<^verbatim>\<open>MultilingualTranslationTask\<close>: the attributes the modelled methods read or write.\<close>

record task =
  args :: namespace
  heap :: "string list list"
  dicts :: "(string \<times> dictionary) list"
  training :: bool
  lang_pairs :: ref
  eval_lang_pairs :: ref
  model_lang_pairs :: ref
  datasets :: "(string \<times> round_robin) list"

text \<open>\<^verbatim>\<open>BtTranslationTask(MultilingualTranslationTask)\<close> adds its own attributes.\<close>

record bt_task = task +
  lambda_parallel :: real
  lambda_parallel_steps :: "schedule option"
  lambda_otf_bt :: real
  lambda_otf_bt_steps :: "schedule option"
  lambda_denoising :: real
  lambda_denoising_steps :: "schedule option"
  backtranslate_datasets :: "(string \<times> dataset) list"
  backtranslators :: "(string \<times> backtranslate_fn) list"
  sequence_generators :: "(string \<times> sequence_generator) list"
  baseline :: "real option"
  dev_itr :: "round_robin option"
  data_optimizer :: "(module list \<times> real) option"

definition deref :: "'a task_scheme \<Rightarrow> ref \<Rightarrow> string list" where
  "deref st r = heap st ! r"

text \<open>Dictionary subscription \<^verbatim>\<open>d[key]\<close> raises \<open>KeyError\<close> on a missing key.\<close>

definition getitem :: "(string \<times> 'v) list \<Rightarrow> string \<Rightarrow> error + 'v" where
  "getitem d k = (case map_of d k of None \<Rightarrow> Inl (KeyError k) | Some v \<Rightarrow> Inr v)"

text \<open>\<^verbatim>\<open>src, tgt = lang_pair.split('-')\<close>: unpacking needs exactly two pieces.\<close>

definition split_pair :: "string \<Rightarrow> error + (string \<times> string)" where
  "split_pair lang_pair =
     (case split_str (CHR ''-'') lang_pair of
        [src, tgt] \<Rightarrow> Inr (src, tgt)
      | [] \<Rightarrow> Inl (ValueError ''not enough values to unpack'')
      | [_] \<Rightarrow> Inl (ValueError ''not enough values to unpack'')
      | _ \<Rightarrow> Inl (ValueError ''too many values to unpack''))"

text \<open>\<^verbatim>\<open>str(x)\<close> of an optional string, as \<^verbatim>\<open>format\<close> renders it.\<close>

definition str_opt :: "string option \<Rightarrow> string" where
  "str_opt x = (case x of None \<Rightarrow> ''None'' | Some s \<Rightarrow> s)"

section \<open>Language-token policy (multilingual\_translation.py)\<close>

definition lang_token :: "string \<Rightarrow> string" where
  "lang_token lang = ''__'' @ lang @ ''__''"

definition lang_token_index :: "dictionary \<Rightarrow> string \<Rightarrow> error + nat" where
  "lang_token_index dic lang =
     (let idx = dict_index dic (lang_token lang) in
      if \<not> (idx \<noteq> unk_index dic) then Inl AssertionError else Inr idx)"

text \<open>
  \<^verbatim>\<open>get_encoder_langtok(src_lang, tgt_lang)\<close>. The source language can be \<^verbatim>\<open>None\<close>
  where \<^verbatim>\<open>alter_dataset_langtok\<close> is called without it; \<^verbatim>\<open>self.dicts[None]\<close> is a
  missing key.
\<close>

definition dicts_get :: "'a task_scheme \<Rightarrow> string option \<Rightarrow> error + dictionary" where
  "dicts_get st lang =
     (case lang of None \<Rightarrow> Inl (KeyError ''None'') | Some l \<Rightarrow> getitem (dicts st) l)"

definition get_encoder_langtok :: "'a task_scheme \<Rightarrow> string option \<Rightarrow> string \<Rightarrow> error + nat" where
  "get_encoder_langtok st src_lang tgt_lang =
     (if encoder_langtok (args st) = None then
        bind (dicts_get st src_lang) (\<lambda>d. Inr (eos_index d))
      else if encoder_langtok (args st) = Some ''src'' then
        bind (dicts_get st src_lang) (\<lambda>d. lang_token_index d (str_opt src_lang))
      else
        bind (dicts_get st src_lang) (\<lambda>d. lang_token_index d tgt_lang))"

definition get_decoder_langtok :: "'a task_scheme \<Rightarrow> string \<Rightarrow> error + nat" where
  "get_decoder_langtok st tgt_lang =
     (if \<not> decoder_langtok (args st) then
        bind (getitem (dicts st) tgt_lang) (\<lambda>d. Inr (eos_index d))
      else
        bind (getitem (dicts st) tgt_lang) (\<lambda>d. lang_token_index d tgt_lang))"

text \<open>
  Lines 232 to 240 of \<^verbatim>\<open>alter_dataset_langtok\<close>: the sampling lists. The division
  \<^verbatim>\<open>sample_tag_prob / (len(tgt_langs) - 1)\<close> raises on a zero divisor.
\<close>

definition py_div :: "real \<Rightarrow> int \<Rightarrow> error + real" where
  "py_div a b = (if b = 0 then Inl ZeroDivisionError else Inr (a / real_of_int b))"

definition soft_tag_lists ::
  "'a task_scheme \<Rightarrow> string option \<Rightarrow> string option \<Rightarrow> string list \<Rightarrow> string
     \<Rightarrow> error + (nat list option \<times> real list option)" where
  "soft_tag_lists st src_lang tgt_lang tgt_langs split_name =
     (if split_name = ''train'' \<and> tgt_lang \<in> Some ` set tgt_langs then
        (let cur_tgt_idx = index_of (the tgt_lang) tgt_langs in
         bind (py_div (sample_tag_prob (args st)) (int (length tgt_langs) - 1)) (\<lambda>p.
         (let probs = (replicate (length tgt_langs) p)
                        [cur_tgt_idx := 1 - sample_tag_prob (args st)] in
          bind (map_err (\<lambda>t. get_encoder_langtok st src_lang t) tgt_langs) (\<lambda>eos_list.
          Inr (Some eos_list, Some probs)))))
      else Inr (None, None))"

definition alter_dataset_langtok ::
  "'a task_scheme \<Rightarrow> dataset \<Rightarrow> nat option \<Rightarrow> string option \<Rightarrow> nat option \<Rightarrow> string option
     \<Rightarrow> string list \<Rightarrow> string \<Rightarrow> error + dataset" where
  "alter_dataset_langtok st lang_pair_dataset src_eos_arg src_lang tgt_eos_arg tgt_lang
       tgt_langs split_name =
     (if encoder_langtok (args st) = None \<and> \<not> decoder_langtok (args st) then
        Inr lang_pair_dataset
      else
        bind (if encoder_langtok (args st) \<noteq> None \<and> src_eos_arg \<noteq> None
                 \<and> src_lang \<noteq> None \<and> tgt_lang \<noteq> None
              then bind (get_encoder_langtok st src_lang (the tgt_lang))
                     (\<lambda>t. Inr (Some t, src_eos_arg))
              else Inr (None, None)) (\<lambda>(new_src, src_eos').
        bind (if decoder_langtok (args st) \<and> tgt_eos_arg \<noteq> None \<and> tgt_lang \<noteq> None
              then bind (get_decoder_langtok st (the tgt_lang))
                     (\<lambda>t. Inr (Some t, tgt_eos_arg))
              else Inr (None, None)) (\<lambda>(new_tgt, tgt_eos').
        bind (soft_tag_lists st src_lang tgt_lang tgt_langs split_name) (\<lambda>(eos_list, probs).
        Inr (TransformEosLangPairDataset lang_pair_dataset
               \<lparr>src_eos = src_eos', new_src_eos = new_src, tgt_bos = tgt_eos',
                new_tgt_bos = new_tgt, new_src_eos_list = eos_list,
                new_src_eos_list_probs = probs, tr_split = split_name\<rparr>)))))"

section \<open>Task setup (multilingual\_translation.py)\<close>

text \<open>\<^verbatim>\<open>os.path.join(a, b)\<close> on POSIX paths, for two components.\<close>

definition os_path_join :: "string \<Rightarrow> string \<Rightarrow> string" where
  "os_path_join a b =
     (if b \<noteq> [] \<and> hd b = CHR ''/'' then b
      else if a = [] \<or> last a = CHR ''/'' then a @ b
      else a @ ''/'' @ b)"

text \<open>
  The namespace as the argument parser leaves it, before \<^verbatim>\<open>prepare\<close> rewrites some of
  its attributes (the language-pair options are still comma-separated strings or
  \<^verbatim>\<open>None\<close>, the padding options still strings), and the attributes \<^verbatim>\<open>prepare\<close> assigns.
\<close>

record cli_args =
  cli_data :: string
  cli_lang_pairs :: "string option"
  cli_eval_lang_pairs :: "string option"
  cli_source_lang :: "string option"
  cli_target_lang :: "string option"
  cli_left_pad_source :: string
  cli_left_pad_target :: string
  cli_raw_text :: bool
  cli_lazy_load :: bool
  cli_dataset_impl :: "string option"
  cli_encoder_langtok :: "string option"
  cli_decoder_langtok :: bool

record prepared_args =
  p_left_pad_source :: bool
  p_left_pad_target :: bool
  p_dataset_impl :: "string option"
  p_lang_pairs :: "string list"
  p_eval_lang_pairs :: "string list"

text \<open>
  \<^verbatim>\<open>sorted(list({x for lang_pair in args.lang_pairs for x in lang_pair.split('-')}))\<close>.
\<close>

definition sorted_langs_of :: "string list \<Rightarrow> string list" where
  "sorted_langs_of pairs = sort (remdups (concat (map (split_str (CHR ''-'')) pairs)))"

definition dict_path :: "string \<Rightarrow> string \<Rightarrow> string" where
  "dict_path data_arg lang =
     os_path_join (split_str (CHR '':'') data_arg ! 0) (''dict.'' @ lang @ ''.txt'')"

text \<open>
  The dictionary loop of \<^verbatim>\<open>prepare\<close>, one iteration per language of \<open>sorted_langs\<close>;
  \<open>dictionary_load\<close> is \<^verbatim>\<open>Dictionary.load\<close>. The three assertions compare the dictionary
  just stored with the one of the first language.
\<close>

fun load_dicts ::
  "(string \<Rightarrow> error + dictionary) \<Rightarrow> cli_args \<Rightarrow> string list \<Rightarrow> string list
     \<Rightarrow> (string \<times> dictionary) list \<Rightarrow> error + (string \<times> dictionary) list" where
  "load_dicts dictionary_load cli sorted_langs [] ds = Inr ds"
| "load_dicts dictionary_load cli sorted_langs (lang # rest) ds =
     (let paths = split_str (CHR '':'') (cli_data cli) in
      if \<not> (length paths > 0) then Inl AssertionError
      else
        bind (dictionary_load (os_path_join (paths ! 0) (''dict.'' @ lang @ ''.txt''))) (\<lambda>d.
        (let ds1 = AList.update lang d ds in
         bind (if length ds1 > 0 then
                 bind (getitem ds1 (sorted_langs ! 0)) (\<lambda>d0.
                   if \<not> (pad_index d = pad_index d0) then Inl AssertionError
                   else if \<not> (eos_index d = eos_index d0) then Inl AssertionError
                   else if \<not> (unk_index d = unk_index d0) then Inl AssertionError
                   else Inr ())
               else Inr ()) (\<lambda>_.
         (let ds2 = (if cli_encoder_langtok cli \<noteq> None \<or> cli_decoder_langtok cli
                     then AList.update lang
                            (foldl (\<lambda>dl lang_to_add. add_symbol dl (lang_token lang_to_add))
                               d sorted_langs) ds1
                     else ds1)
          in load_dicts dictionary_load cli sorted_langs rest ds2)))))"

text \<open>
  \<^verbatim>\<open>MultilingualTranslationTask.prepare(args)\<close>; \<open>eval_bool\<close> is \<^verbatim>\<open>options.eval_bool\<close>.
  The result is the pair \<^verbatim>\<open>(dicts, training)\<close> together with the attributes written
  back into \<^verbatim>\<open>args\<close>.
\<close>

definition prepare ::
  "(string \<Rightarrow> error + bool) \<Rightarrow> (string \<Rightarrow> error + dictionary) \<Rightarrow> cli_args
     \<Rightarrow> error + (((string \<times> dictionary) list \<times> bool) \<times> prepared_args)" where
  "prepare eval_bool dictionary_load cli =
     bind (eval_bool (cli_left_pad_source cli)) (\<lambda>lps.
     bind (eval_bool (cli_left_pad_target cli)) (\<lambda>lpt.
     (let impl = (if cli_raw_text cli then Some ''raw''
                  else if cli_lazy_load cli then Some ''lazy''
                  else cli_dataset_impl cli) in
      case cli_lang_pairs cli of
        None \<Rightarrow> Inl (ValueError
          ''--lang-pairs is required. List all the language pairs in the training objective.'')
      | Some pairs_arg \<Rightarrow>
          (let pairs = split_str (CHR '','') pairs_arg;
               eval_pairs = (case cli_eval_lang_pairs cli of
                               Some e \<Rightarrow> split_str (CHR '','') e
                             | None \<Rightarrow> pairs);
               sorted_langs = sorted_langs_of pairs;
               training_flag = (if cli_source_lang cli \<noteq> None \<or> cli_target_lang cli \<noteq> None
                                then False else True)
           in bind (load_dicts dictionary_load cli sorted_langs sorted_langs []) (\<lambda>ds.
                Inr ((ds, training_flag),
                     \<lparr>p_left_pad_source = lps, p_left_pad_target = lpt, p_dataset_impl = impl,
                      p_lang_pairs = pairs, p_eval_lang_pairs = eval_pairs\<rparr>))))))"

text \<open>The three indices the assertions of \<^verbatim>\<open>prepare\<close> compare.\<close>

definition special_indices :: "dictionary \<Rightarrow> nat \<times> nat \<times> nat" where
  "special_indices d = (pad_index d, eos_index d, unk_index d)"

section \<open>Model construction\<close>

text \<open>
  \<^verbatim>\<open>repr\<close> of a list of strings as \<^verbatim>\<open>format\<close> prints it (exact for strings without
  quotes, backslashes and non-printable characters), and \<^verbatim>\<open>sep.join(items)\<close>.
\<close>

fun join_str :: "string \<Rightarrow> string list \<Rightarrow> string" where
  "join_str sep [] = []"
| "join_str sep [x] = x"
| "join_str sep (x # y # ys) = x @ sep @ join_str sep (y # ys)"

definition py_repr_str :: "string \<Rightarrow> string" where
  "py_repr_str s = [CHR 0x27] @ s @ [CHR 0x27]"

definition py_repr_list :: "string list \<Rightarrow> string" where
  "py_repr_list xs = ''['' @ join_str '', '' (map py_repr_str xs) @ '']''"

subsection \<open>MultilingualTranslationTask.build\_model\<close>

text \<open>
  \<^verbatim>\<open>check_args\<close>, the local function: the messages it collects, in order. The task's
  own arguments are \<^verbatim>\<open>self.args\<close>, the caller's are the parameter \<open>a\<close>.
\<close>

definition check_args_messages :: "'a task_scheme \<Rightarrow> namespace \<Rightarrow> string list" where
  "check_args_messages st a =
     (if (set (deref st (arg_lang_pairs (args st))) - set (deref st (arg_lang_pairs a)))
           \<union> (set (deref st (arg_lang_pairs a)) - set (deref st (arg_lang_pairs (args st))))
         \<noteq> {}
      then [''--lang-pairs should include all the language pairs ''
              @ py_repr_list (deref st (arg_lang_pairs a)) @ ''.'']
      else [])
     @ (if encoder_langtok (args st) \<noteq> encoder_langtok a
        then [''--encoder-langtok should be '' @ str_opt (encoder_langtok a) @ ''.'']
        else [])
     @ (if decoder_langtok (args st) \<noteq> decoder_langtok a
        then [''--decoder-langtok should '' @ (if decoder_langtok a then '''' else ''not'')
                @ '' be set.'']
        else [])"

definition check_args :: "'a task_scheme \<Rightarrow> namespace \<Rightarrow> error + unit" where
  "check_args st a =
     (let messages = check_args_messages st a in
      if length messages > 0 then Inl (ValueError (join_str '' '' messages)) else Inr ())"

text \<open>
  \<^verbatim>\<open>models.build_model(args, self)\<close> is the parameter \<open>models_build_model\<close>; it is
  taken not to modify the task. \<^verbatim>\<open>isinstance(model, FairseqMultiModel)\<close> is the flag
  \<open>is_multi_model\<close>.
\<close>

definition build_model ::
  "(namespace \<Rightarrow> 'a task_scheme \<Rightarrow> error + model) \<Rightarrow> 'a task_scheme \<Rightarrow> namespace
     \<Rightarrow> error + model" where
  "build_model models_build_model st a =
     bind (check_args st a) (\<lambda>_.
     bind (models_build_model a st) (\<lambda>m.
     if \<not> is_multi_model m then
       Inl (ValueError ''MultilingualTranslationTask requires a FairseqMultiModel architecture'')
     else Inr m))"

subsection \<open>BtTranslationTask.build\_model\<close>

text \<open>A \<^verbatim>\<open>for\<close> loop whose body updates the loop state and can raise.\<close>

fun fold_err :: "('a \<Rightarrow> 's \<Rightarrow> error + 's) \<Rightarrow> 'a list \<Rightarrow> 's \<Rightarrow> error + 's" where
  "fold_err f [] s = Inr s"
| "fold_err f (x # xs) s = bind (f x s) (\<lambda>s'. fold_err f xs s')"

definition get_dds_bt_key :: "string \<Rightarrow> error + string" where
  "get_dds_bt_key lang_pair =
     bind (split_pair lang_pair) (\<lambda>(src, tgt). Inr (tgt @ ''-'' @ src))"

text \<open>
  Lines 267 to 270: for every pair of the copied list, the key of the reverse direction is
  appended to the list object \<^verbatim>\<open>self.lang_pairs\<close>.
\<close>

definition append_reverse_pairs :: "string list \<Rightarrow> string list \<Rightarrow> error + string list" where
  "append_reverse_pairs copied_lang_pairs current =
     fold_err (\<lambda>lang_pair cur.
        bind (split_pair lang_pair) (\<lambda>(src, tgt). Inr (cur @ [tgt @ ''-'' @ src])))
       copied_lang_pairs current"

text \<open>
  Lines 275 to 282: the optimizer of the data actor, kept as the sub-models whose
  parameters it is given and its learning rate; \<^verbatim>\<open>torch.optim.SGD\<close> is taken to accept
  them.
\<close>

definition build_data_optimizer :: "bt_task \<Rightarrow> model \<Rightarrow> error + bt_task" where
  "build_data_optimizer st m =
     (if bt_dds (args st) then
        bind (map_err (\<lambda>lang_pair.
                bind (get_dds_bt_key lang_pair) (\<lambda>bt_lang_pair.
                getitem (models m) bt_lang_pair))
              (deref st (lang_pairs st))) (\<lambda>bt_modules.
        (case data_actor_lr (args st) of
           [] \<Rightarrow> Inl IndexError
         | lr # _ \<Rightarrow> Inr (st\<lparr>data_optimizer := Some (bt_modules, lr)\<rparr>)))
      else Inr st)"

text \<open>
  Lines 286 to 310, one iteration: the generator of the reverse direction and the closure
  stored under the pair.
\<close>

definition build_backtranslator :: "namespace \<Rightarrow> model \<Rightarrow> string \<Rightarrow> bt_task \<Rightarrow> error + bt_task" where
  "build_backtranslator a m lang_pair st =
     bind (split_pair lang_pair) (\<lambda>(src, tgt).
     (let key = tgt @ ''-'' @ src in
      bind (getitem (dicts st) src) (\<lambda>src_dict.
      (let generator = \<lparr>sg_tgt_dict = src_dict, beam_size = bt_beam_size a,
                         max_len_a = bt_max_len_a a, max_len_b = bt_max_len_b a\<rparr>;
           st1 = st\<lparr>sequence_generators := AList.update key generator (sequence_generators st)\<rparr>
       in
       bind (get_decoder_langtok st1 src) (\<lambda>decoder_lang_tok_idx.
       bind (getitem (models m) key) (\<lambda>sub_model.
       bind (getitem (sequence_generators st1) key) (\<lambda>sg.
       Inr (st1\<lparr>backtranslators :=
                   AList.update lang_pair
                     \<lparr>bt_model = sub_model, bos_token = decoder_lang_tok_idx,
                      bt_sequence_generator = sg\<rparr>
                     (backtranslators st1)\<rparr>))))))))"

definition bt_build_model ::
  "(namespace \<Rightarrow> bt_task \<Rightarrow> error + model) \<Rightarrow> bt_task \<Rightarrow> namespace
     \<Rightarrow> error + (model \<times> bt_task)" where
  "bt_build_model models_build_model st a =
     (let copied_lang_pairs = deref st (lang_pairs st) in
      bind (append_reverse_pairs copied_lang_pairs (deref st (lang_pairs st))) (\<lambda>extended.
      (let st1 = st\<lparr>heap := (heap st)[lang_pairs st := extended]\<rparr> in
       bind (models_build_model a st1) (\<lambda>m.
       (let st2 = st1\<lparr>heap := heap st1 @ [copied_lang_pairs], lang_pairs := length (heap st1)\<rparr>
        in
        if \<not> is_multi_model m then
          Inl (ValueError
                 ''SemisupervisedTranslationTask requires a FairseqMultiModel architecture'')
        else
          bind (build_data_optimizer st2 m) (\<lambda>st3.
          (let st4 = st3\<lparr>sequence_generators := []\<rparr> in
           bind (if training st4
                 then fold_err (build_backtranslator a m) (deref st4 (lang_pairs st4)) st4
                 else Inr st4) (\<lambda>st5.
           Inr (m, st5)))))))))"

text \<open>
  The attributes that the steps of \<^verbatim>\<open>build_model\<close> after the model construction leave
  as they are.
\<close>

definition bt_frame :: "bt_task \<Rightarrow> bt_task \<Rightarrow> bool" where
  "bt_frame s t = (heap t = heap s \<and> lang_pairs t = lang_pairs s \<and> args t = args s
                   \<and> dicts t = dicts s \<and> training t = training s)"

section \<open>Dataset loading (bt\_translation.py)\<close>

definition startswith :: "string \<Rightarrow> string \<Rightarrow> bool" where
  "startswith s p = (take (length p) s = p)"

text \<open>
  \<^verbatim>\<open>split_exists(split, src, tgt, lang)\<close>, the local function of \<^verbatim>\<open>load_dataset\<close>;
  \<open>raw_exists\<close> is \<^verbatim>\<open>IndexedRawTextDataset.exists\<close> and \<open>indexed_exists\<close> is
  \<^verbatim>\<open>IndexedDataset.exists\<close>.
\<close>

definition split_exists ::
  "(string \<Rightarrow> bool) \<Rightarrow> (string \<Rightarrow> bool) \<Rightarrow> 'a task_scheme \<Rightarrow> string \<Rightarrow> string
     \<Rightarrow> string option \<Rightarrow> string option \<Rightarrow> string \<Rightarrow> bool" where
  "split_exists raw_exists indexed_exists st data_path split_name src tgt lang =
     (let filename =
            (if src \<noteq> None
             then os_path_join data_path
                    (split_name @ ''.'' @ str_opt src @ ''-'' @ str_opt tgt @ ''.'' @ lang)
             else os_path_join data_path
                    (split_name @ ''.'' @ str_opt src @ ''-None.'' @ str_opt tgt))
      in if raw_text (args st) \<and> raw_exists filename then True
         else if \<not> raw_text (args st) \<and> indexed_exists filename then True
         else False)"

text \<open>
  \<^verbatim>\<open>data_utils.load_indexed_dataset(path, dictionary)\<close> is the parameter
  \<open>load_indexed_dataset\<close>; it returns a dataset or \<^verbatim>\<open>None\<close>, or raises. Reading
  \<^verbatim>\<open>.sizes\<close> of \<^verbatim>\<open>None\<close> and taking its \<^verbatim>\<open>len\<close> raise.
\<close>

definition sizes :: "dataset option \<Rightarrow> error + dataset" where
  "sizes d = (case d of
                None \<Rightarrow> Inl (AttributeError ''NoneType object has no attribute sizes'')
              | Some x \<Rightarrow> Inr x)"

definition len_dataset :: "dataset option \<Rightarrow> error + unit" where
  "len_dataset d = (case d of
                      None \<Rightarrow> Inl (TypeError ''object of type NoneType has no len()'')
                    | Some x \<Rightarrow> Inr ())"

text \<open>Lines 159 to 171: one iteration of the loop that loads the parallel datasets.\<close>

definition load_parallel_pair ::
  "(string \<Rightarrow> bool) \<Rightarrow> (string \<Rightarrow> bool) \<Rightarrow> (string \<Rightarrow> dictionary \<Rightarrow> error + dataset option)
     \<Rightarrow> 'a task_scheme \<Rightarrow> string \<Rightarrow> string \<Rightarrow> string
     \<Rightarrow> (string \<times> dataset option) list \<times> (string \<times> dataset option) list
     \<Rightarrow> error + ((string \<times> dataset option) list \<times> (string \<times> dataset option) list)" where
  "load_parallel_pair raw_exists indexed_exists load_indexed_dataset st data_path split_name
       lang_pair acc =
     bind (split_pair lang_pair) (\<lambda>(src, tgt).
     (let found =
            (if split_exists raw_exists indexed_exists st data_path split_name
                  (Some src) (Some tgt) src
             then Some (os_path_join data_path (split_name @ ''.'' @ src @ ''-'' @ tgt @ ''.''))
             else if split_exists raw_exists indexed_exists st data_path split_name
                  (Some tgt) (Some src) src
             then Some (os_path_join data_path (split_name @ ''.'' @ tgt @ ''-'' @ src @ ''.''))
             else None)
      in case found of
           None \<Rightarrow> Inr acc
         | Some file_prefix \<Rightarrow>
             bind (getitem (dicts st) src) (\<lambda>src_dict.
             bind (load_indexed_dataset (file_prefix @ src) src_dict) (\<lambda>s.
             bind (getitem (dicts st) tgt) (\<lambda>tgt_dict.
             bind (load_indexed_dataset (file_prefix @ tgt) tgt_dict) (\<lambda>t.
             bind (len_dataset s) (\<lambda>_.
             Inr (AList.update lang_pair s (fst acc),
                  AList.update lang_pair t (snd acc)))))))))"

text \<open>
  \<^verbatim>\<open>language_pair_dataset(lang_pair)\<close>, the local function: it reads the two dictionaries
  \<^verbatim>\<open>src_datasets\<close> and \<^verbatim>\<open>tgt_datasets\<close> of the enclosing call.
\<close>

definition language_pair_dataset ::
  "'a task_scheme \<Rightarrow> (string \<times> dataset option) list \<Rightarrow> (string \<times> dataset option) list
     \<Rightarrow> string \<Rightarrow> error + dataset" where
  "language_pair_dataset st src_datasets tgt_datasets lang_pair =
     bind (split_pair lang_pair) (\<lambda>(src, tgt).
     bind (getitem src_datasets lang_pair) (\<lambda>src_dataset.
     bind (getitem tgt_datasets lang_pair) (\<lambda>tgt_dataset.
     bind (sizes src_dataset) (\<lambda>s.
     bind (getitem (dicts st) src) (\<lambda>src_dict.
     bind (sizes tgt_dataset) (\<lambda>t.
     bind (getitem (dicts st) tgt) (\<lambda>tgt_dict.
     alter_dataset_langtok st
       (LanguagePairDataset s src_dict (Some t) (Some tgt_dict)
          (left_pad_source (args st)) (left_pad_target (args st))
          (Some (max_source_positions (args st))) (Some (max_target_positions (args st))))
       (Some (eos_index src_dict)) (Some src) (Some (eos_index tgt_dict)) (Some tgt)
       [] ''train'')))))))"

text \<open>
  Lines 196 to 233: one iteration of the loop that builds the back-translation datasets.
  The loop state is the local dictionary \<^verbatim>\<open>backtranslate_datasets\<close> and the attribute
  \<^verbatim>\<open>self.backtranslate_datasets\<close>.
\<close>

definition mono_filename :: "string \<Rightarrow> string \<Rightarrow> string \<Rightarrow> string" where
  "mono_filename data_path split_name tgt =
     os_path_join data_path (split_name @ ''.'' @ tgt @ ''-None.'' @ tgt)"

definition load_backtranslation_pair ::
  "(string \<Rightarrow> bool) \<Rightarrow> (string \<Rightarrow> bool) \<Rightarrow> (string \<Rightarrow> dictionary \<Rightarrow> error + dataset option)
     \<Rightarrow> bt_task \<Rightarrow> string \<Rightarrow> string
     \<Rightarrow> (string \<times> dataset option) list \<Rightarrow> (string \<times> dataset option) list \<Rightarrow> string
     \<Rightarrow> (string \<times> dataset) list \<times> (string \<times> dataset) list
     \<Rightarrow> error + ((string \<times> dataset) list \<times> (string \<times> dataset) list)" where
  "load_backtranslation_pair raw_exists indexed_exists load_indexed_dataset st data_path
       split_name src_datasets tgt_datasets lang_pair acc =
     bind (split_pair lang_pair) (\<lambda>(src, tgt).
     if \<not> split_exists raw_exists indexed_exists st data_path split_name (Some tgt) None tgt
     then Inl (FileNotFoundError
                 (''Dataset not found: backtranslation '' @ split_name
                    @ '' ('' @ data_path @ '')''))
     else
       bind (getitem (dicts st) tgt) (\<lambda>tgt_dict.
       bind (load_indexed_dataset (mono_filename data_path split_name tgt) tgt_dict) (\<lambda>loaded.
       bind (sizes loaded) (\<lambda>mono.
       bind (alter_dataset_langtok st
               (LanguagePairDataset mono tgt_dict None None
                  (left_pad_source (args st)) (left_pad_target (args st)) None None)
               (Some (eos_index tgt_dict)) (Some tgt) None (Some src) [] ''train'')
         (\<lambda>tgt_dataset.
       bind (getitem (backtranslators st) lang_pair) (\<lambda>backtranslation_fn.
       bind (getitem (dicts st) src) (\<lambda>src_dict.
       bind (language_pair_dataset st src_datasets tgt_datasets lang_pair) (\<lambda>output_collater.
       (let bd = BacktranslationDataset tgt_dataset backtranslation_fn src_dict tgt_dict
                   output_collater
        in Inr (AList.update lang_pair bd (fst acc),
                AList.update lang_pair bd (snd acc)))))))))))"

definition get_bt_dataset_key :: "string \<Rightarrow> string" where
  "get_bt_dataset_key lang_pair = ''bt:'' @ lang_pair"

text \<open>
  \<^verbatim>\<open>BtTranslationTask.load_dataset(split, epoch)\<close>. The iterator that
  \<^verbatim>\<open>get_batch_iterator\<close> makes over the validation set for the data actor is kept as the
  dataset it iterates; its construction is taken to succeed.
\<close>

definition load_dataset ::
  "(string \<Rightarrow> bool) \<Rightarrow> (string \<Rightarrow> bool) \<Rightarrow> (string \<Rightarrow> dictionary \<Rightarrow> error + dataset option)
     \<Rightarrow> bt_task \<Rightarrow> string \<Rightarrow> int \<Rightarrow> error + bt_task" where
  "load_dataset raw_exists indexed_exists load_indexed_dataset st split_name epoch =
     (let paths = split_str (CHR '':'') (data (args st)) in
      if \<not> (length paths > 0) then Inl AssertionError
      else
        (let data_path = paths ! nat (epoch mod int (length paths)) in
         bind (fold_err (load_parallel_pair raw_exists indexed_exists load_indexed_dataset
                           st data_path split_name)
                 (deref st (lang_pairs st)) ([], [])) (\<lambda>(src_datasets, tgt_datasets).
         if length src_datasets = 0
         then Inl (FileNotFoundError
                     (''Dataset not found: '' @ split_name @ '' ('' @ data_path @ '')''))
         else
           bind (if startswith split_name ''train''
                 then fold_err (load_backtranslation_pair raw_exists indexed_exists
                                  load_indexed_dataset st data_path split_name
                                  src_datasets tgt_datasets)
                        (deref st (lang_pairs st)) ([], backtranslate_datasets st)
                 else Inr ([], backtranslate_datasets st)) (\<lambda>(bt_datasets, self_bt_datasets).
           bind (map_err (\<lambda>lang_pair.
                    bind (language_pair_dataset st src_datasets tgt_datasets lang_pair)
                      (\<lambda>d. Inr (lang_pair, d)))
                  (map fst src_datasets)) (\<lambda>parallel_datasets.
           (let rr = \<lparr>rr_datasets =
                        ordered_dict
                          (parallel_datasets
                           @ map (\<lambda>(lang_pair, d). (get_bt_dataset_key lang_pair, d))
                               bt_datasets),
                      eval_key =
                        (if training st then None
                         else Some (str_opt (source_lang (args st)) @ ''-''
                                      @ str_opt (target_lang (args st))))\<rparr>;
                st1 = st\<lparr>backtranslate_datasets := self_bt_datasets,
                         datasets := AList.update split_name rr (datasets st)\<rparr>
            in Inr (if split_name = ''valid'' \<and> bt_dds (args st1)
                    then st1\<lparr>dev_itr := Some rr\<rparr> else st1)))))))"

section \<open>Auxiliary predicates\<close>


section \<open>Concrete inputs\<close>

text \<open>
  A small configuration on which the definitions are run: three languages whose
  dictionaries hold the language tokens, the pairs \<^verbatim>\<open>en-de\<close> and \<^verbatim>\<open>en-fr\<close>, and the
  encoder token taken from the target language.
\<close>

definition example_dict :: dictionary where
  "example_dict = \<lparr>symbols = [''<s>'', ''<pad>'', ''</s>'', ''<unk>'', ''a'', ''__de__'', ''__en__'', ''__fr__''],
     pad_index = 1, eos_index = 2, unk_index = 3\<rparr>"

definition example_args :: namespace where
  "example_args = \<lparr>data = ''/data'', arg_lang_pairs = 0, source_lang = None, target_lang = None,
     raw_text = False, left_pad_source = True, left_pad_target = False,
     max_source_positions = 1024, max_target_positions = 1024,
     encoder_langtok = Some ''tgt'', decoder_langtok = False, sample_tag_prob = 1 / 4,
     data_actor = ''base'', extra_data_actor = ''base'',
     lambda_parallel_config = ''1.0'', lambda_otf_bt_config = ''0:0,100:1'',
     lambda_denoising_config = ''0.0'',
     bt_max_len_a = 11 / 10, bt_max_len_b = 10, bt_beam_size = 1, bt_dds = False,
     data_actor_lr = [1 / 1000]\<rparr>"

definition example_task :: task where
  "example_task = \<lparr>args = example_args, heap = [[''en-de'', ''en-fr'']],
     dicts = [(''de'', example_dict), (''en'', example_dict), (''fr'', example_dict)],
     training = True, lang_pairs = 0, eval_lang_pairs = 0, model_lang_pairs = 0, datasets = []\<rparr>"

definition example_cli :: cli_args where
  "example_cli = \<lparr>cli_data = ''/data:/more'', cli_lang_pairs = Some ''en-de,en-fr'',
     cli_eval_lang_pairs = None, cli_source_lang = None, cli_target_lang = None,
     cli_left_pad_source = ''True'', cli_left_pad_target = ''False'', cli_raw_text = False,
     cli_lazy_load = False, cli_dataset_impl = None, cli_encoder_langtok = Some ''tgt'',
     cli_decoder_langtok = False\<rparr>"

definition example_eval_bool :: "string \<Rightarrow> error + bool" where
  "example_eval_bool s =
     (if s = ''True'' then Inr True else if s = ''False'' then Inr False
      else Inl (NameError s))"

definition plain_dict :: dictionary where
  "plain_dict = \<lparr>symbols = [''<s>'', ''<pad>'', ''</s>'', ''<unk>'', ''a''],
     pad_index = 1, eos_index = 2, unk_index = 3\<rparr>"

definition shifted_dict :: dictionary where
  "shifted_dict = \<lparr>symbols = [''<pad>'', ''</s>'', ''<unk>'', ''a''],
     pad_index = 0, eos_index = 1, unk_index = 2\<rparr>"

definition good_files :: "string \<Rightarrow> error + dictionary" where
  "good_files path =
     (if path \<in> {''/data/dict.de.txt'', ''/data/dict.en.txt'', ''/data/dict.fr.txt''}
      then Inr plain_dict else Inl (FileNotFoundError path))"

definition bad_files :: "string \<Rightarrow> error + dictionary" where
  "bad_files path =
     (if path \<in> {''/data/dict.de.txt'', ''/data/dict.en.txt''} then Inr plain_dict
      else if path = ''/data/dict.fr.txt'' then Inr shifted_dict
      else Inl (FileNotFoundError path))"

text \<open>
  The same configuration as a back-translation task, a model constructor that builds one
  sub-model per pair of \<^verbatim>\<open>task.lang_pairs\<close>, and arguments that disagree with the task's on
  the decoder token flag.
\<close>

definition example_bt_task :: bt_task where
  "example_bt_task = \<lparr>args = example_args, heap = [[''en-de'', ''en-fr'']],
     dicts = [(''de'', example_dict), (''en'', example_dict), (''fr'', example_dict)],
     training = True, lang_pairs = 0, eval_lang_pairs = 0, model_lang_pairs = 0, datasets = [],
     lambda_parallel = 1, lambda_parallel_steps = None,
     lambda_otf_bt = 0, lambda_otf_bt_steps = Some [(0, 0), (100, 1)],
     lambda_denoising = 0, lambda_denoising_steps = None,
     backtranslate_datasets = [], backtranslators = [], sequence_generators = [],
     baseline = None, dev_itr = None, data_optimizer = None\<rparr>"

definition example_models_build_model :: "namespace \<Rightarrow> 'a task_scheme \<Rightarrow> error + model" where
  "example_models_build_model a st =
     Inr \<lparr>is_multi_model = True,
          models = map (\<lambda>(i, p). (p, i)) (enumerate 0 (deref st (lang_pairs st)))\<rparr>"


definition mismatched_args :: namespace where
  "mismatched_args = example_args\<lparr>decoder_langtok := True\<rparr>"

definition single_pair_model :: "namespace \<Rightarrow> 'a task_scheme \<Rightarrow> error + model" where
  "single_pair_model a st = Inr \<lparr>is_multi_model = True, models = [(''en-de'', 0)]\<rparr>"

definition plain_model_builder :: "namespace \<Rightarrow> 'a task_scheme \<Rightarrow> error + model" where
  "plain_model_builder a st = Inr \<lparr>is_multi_model = False, models = []\<rparr>"

text \<open>
  The task after \<^verbatim>\<open>build_model\<close>, and two data directories: one with parallel and
  monolingual training files for both pairs, one where the pair \<^verbatim>\<open>en-fr\<close> has only its
  monolingual file.
\<close>

definition example_built_task :: bt_task where
  "example_built_task =
     snd (projr (bt_build_model example_models_build_model example_bt_task example_args))"


definition partial_directory :: "string \<Rightarrow> bool" where
  "partial_directory path =
     (path \<in> {''/data/train.en-de.en'', ''/data/train.en-de.de'',
               ''/data/train.de-None.de'', ''/data/train.fr-None.fr''})"

definition no_raw_files :: "string \<Rightarrow> bool" where
  "no_raw_files path = False"

definition example_loader :: "string \<Rightarrow> dictionary \<Rightarrow> error + dataset option" where
  "example_loader path d = Inr (Some (IndexedDataset path))"

text \<open>The same task with no language-token policy configured.\<close>

definition unmarked_task :: task where
  "unmarked_task = example_task\<lparr>args := example_args\<lparr>encoder_langtok := None\<rparr>\<rparr>"

section \<open>Properties of the lambda scheduler\<close>

lemma length_split_str: "length (split_str sep x) = Suc (length (filter (\<lambda>c. c = sep) x))"
  by (induction x) (auto split: list.splits)

lemma split_str_single: "sep \<notin> set x \<Longrightarrow> length (split_str sep x) = 1"
  by (auto simp add: length_split_str filter_empty_conv)

lemma split_str_multi: "sep \<in> set x \<Longrightarrow> length (split_str sep x) \<noteq> 1"
  by (auto simp add: length_split_str filter_empty_conv)

lemma map_err_all_ok:
  "\<forall>s \<in> set xs. f s = Inr (g s) \<Longrightarrow> map_err f xs = Inr (map g xs)"
  by (induction xs) (auto simp: bind_def)

lemma steps_increasing_sorted:
  "steps_increasing ps = sorted_wrt (<) (map (\<lambda>s. int_of_digits (s ! 0)) ps)"
proof -
  have "sorted_wrt (<) (map (\<lambda>s. int_of_digits (s ! 0)) ps) =
        (\<forall>i. Suc i < length ps \<longrightarrow> int_of_digits (ps ! i ! 0) < int_of_digits (ps ! Suc i ! 0))"
    by (subst sorted_wrt_iff_nth_Suc_transp) (auto simp: transp_def)
  also have "\<dots> = steps_increasing ps"
    by (auto simp: steps_increasing_def list_all_iff)
  finally show ?thesis by simp
qed

lemma parse_single:
  "CHR '','' \<notin> set x \<Longrightarrow> parse_lambda_config flt x = bind (flt x) (\<lambda>v. Inr (v, None))"
  by (simp add: parse_lambda_config_def split_str_single)

lemma parse_malformed:
  assumes "CHR '','' \<in> set x"
    and "ps = map (split_str (CHR '':'')) (split_str (CHR '','') x)"
    and "(\<exists>s \<in> set ps. length s \<noteq> 2) \<or> (\<exists>s \<in> set ps. \<not> isdigit (s ! 0))
         \<or> \<not> sorted_wrt (<) (map (\<lambda>s. int_of_digits (s ! 0)) ps)"
  shows "parse_lambda_config flt x = Inl AssertionError"
  using assms split_str_multi[of "CHR '',''" x]
  by (auto simp: parse_lambda_config_def Let_def list_all_iff steps_increasing_sorted)

lemma parse_wellformed:
  assumes "CHR '','' \<in> set x"
    and "ps = map (split_str (CHR '':'')) (split_str (CHR '','') x)"
    and "\<forall>s \<in> set ps. length s = 2 \<and> isdigit (s ! 0) \<and> flt (s ! 1) = Inr (val s)"
    and "sorted_wrt (<) (map (\<lambda>s. int_of_digits (s ! 0)) ps)"
  shows "parse_lambda_config flt x =
           Inr (val (ps ! 0), Some (map (\<lambda>s. (int_of_digits (s ! 0), val s)) ps))"
proof -
  have ne: "ps \<noteq> []" using assms(2) length_split_str[of "CHR '',''" x] by auto
  then have h0: "flt (ps ! 0 ! 1) = Inr (val (ps ! 0))"
    using assms(3) by (cases ps) auto
  have m: "map_err (\<lambda>s. bind (flt (s ! 1)) (\<lambda>v. Inr (int_of_digits (s ! 0), v))) ps
           = Inr (map (\<lambda>s. (int_of_digits (s ! 0), val s)) ps)"
    by (rule map_err_all_ok) (use assms(3) in \<open>auto simp: bind_def\<close>)
  show ?thesis
    using assms split_str_multi[of "CHR '',''" x] h0 m
    by (simp add: parse_lambda_config_def Let_def list_all_iff steps_increasing_sorted bind_def)
qed

text \<open>
  Claim C2. \<^verbatim>\<open>parse_lambda_config\<close> maps a string without a comma to the float
  the builtin reads from it, paired with \<open>None\<close> (so \<^verbatim>\<open>"3"\<close> gives \<open>(3.0, None)\<close>),
  and raises exactly when the builtin raises; it maps a comma-separated list of well-formed
  \<^verbatim>\<open>step:value\<close> pairs with strictly increasing steps to the first pair's value and
  the list of checkpoints (so \<^verbatim>\<open>"0:1,1000:0"\<close> gives \<open>(1.0, [(0, 1.0), (1000, 0.0)])\<close>);
  and a comma-separated input with a piece that is not a pair (such as \<^verbatim>\<open>"1,2"\<close>),
  with a step token that is not numeric, or with steps that are not strictly increasing,
  raises \<open>AssertionError\<close>; no default is returned.
\<close>

theorem parse_lambda_config_contract:
  "(flt ''3'' = Inr 3 \<longrightarrow> parse_lambda_config flt ''3'' = Inr (3, None))
   \<and> (CHR '','' \<notin> set x \<longrightarrow>
        parse_lambda_config flt x = (case flt x of Inl e \<Rightarrow> Inl e | Inr v \<Rightarrow> Inr (v, None)))
   \<and> (flt ''1'' = Inr 1 \<and> flt ''0'' = Inr 0 \<longrightarrow>
        parse_lambda_config flt ''0:1,1000:0'' = Inr (1, Some [(0, 1), (1000, 0)]))
   \<and> (CHR '','' \<in> set x
        \<and> (\<forall>s \<in> set (map (split_str (CHR '':'')) (split_str (CHR '','') x)).
              length s = 2 \<and> isdigit (s ! 0) \<and> flt (s ! 1) = Inr (val s))
        \<and> sorted_wrt (<) (map (\<lambda>s. int_of_digits (s ! 0))
                             (map (split_str (CHR '':'')) (split_str (CHR '','') x)))
      \<longrightarrow> parse_lambda_config flt x =
            Inr (val (map (split_str (CHR '':'')) (split_str (CHR '','') x) ! 0),
                 Some (map (\<lambda>s. (int_of_digits (s ! 0), val s))
                         (map (split_str (CHR '':'')) (split_str (CHR '','') x)))))
   \<and> parse_lambda_config flt ''1,2'' = Inl AssertionError
   \<and> (CHR '','' \<in> set x
        \<and> ((\<exists>s \<in> set (map (split_str (CHR '':'')) (split_str (CHR '','') x)). length s \<noteq> 2)
           \<or> (\<exists>s \<in> set (map (split_str (CHR '':'')) (split_str (CHR '','') x)). \<not> isdigit (s ! 0))
           \<or> \<not> sorted_wrt (<) (map (\<lambda>s. int_of_digits (s ! 0))
                                  (map (split_str (CHR '':'')) (split_str (CHR '','') x))))
      \<longrightarrow> parse_lambda_config flt x = Inl AssertionError)"
proof (intro conjI impI)
  assume "flt ''3'' = Inr 3"
  then show "parse_lambda_config flt ''3'' = Inr (3, None)"
    by (simp add: parse_single bind_def)
next
  assume "CHR '','' \<notin> set x"
  then show "parse_lambda_config flt x = (case flt x of Inl e \<Rightarrow> Inl e | Inr v \<Rightarrow> Inr (v, None))"
    by (simp add: parse_single bind_def)
next
  assume "flt ''1'' = Inr 1 \<and> flt ''0'' = Inr 0"
  then show "parse_lambda_config flt ''0:1,1000:0'' = Inr (1, Some [(0, 1), (1000, 0)])"
    by (simp add: parse_lambda_config_def steps_increasing_def bind_def isdigit_def
          is_digit_char_def int_of_digits_def digit_val_def)
next
  assume a: "CHR '','' \<in> set x
        \<and> (\<forall>s \<in> set (map (split_str (CHR '':'')) (split_str (CHR '','') x)).
              length s = 2 \<and> isdigit (s ! 0) \<and> flt (s ! 1) = Inr (val s))
        \<and> sorted_wrt (<) (map (\<lambda>s. int_of_digits (s ! 0))
                             (map (split_str (CHR '':'')) (split_str (CHR '','') x)))"
  show "parse_lambda_config flt x =
            Inr (val (map (split_str (CHR '':'')) (split_str (CHR '','') x) ! 0),
                 Some (map (\<lambda>s. (int_of_digits (s ! 0), val s))
                         (map (split_str (CHR '':'')) (split_str (CHR '','') x))))"
    by (rule parse_wellformed[OF _ refl]) (use a in blast)+
next
  show "parse_lambda_config flt ''1,2'' = Inl AssertionError"
    by (simp add: parse_lambda_config_def)
next
  assume a: "CHR '','' \<in> set x
        \<and> ((\<exists>s \<in> set (map (split_str (CHR '':'')) (split_str (CHR '','') x)). length s \<noteq> 2)
           \<or> (\<exists>s \<in> set (map (split_str (CHR '':'')) (split_str (CHR '','') x)). \<not> isdigit (s ! 0))
           \<or> \<not> sorted_wrt (<) (map (\<lambda>s. int_of_digits (s ! 0))
                                  (map (split_str (CHR '':'')) (split_str (CHR '','') x))))"
  show "parse_lambda_config flt x = Inl AssertionError"
    by (rule parse_malformed[OF _ refl]) (use a in blast)+
qed

theorem parse_lambda_config_contract_witness:
  "parse_lambda_config float_decimal ''3'' = Inr (3, None)
   \<and> parse_lambda_config float_decimal ''0:1,1000:0'' = Inr (1, Some [(0, 1), (1000, 0)])
   \<and> parse_lambda_config float_decimal ''0:0,100:1'' = Inr (0, Some [(0, 0), (100, 1)])
   \<and> parse_lambda_config float_decimal ''1,2'' = Inl AssertionError
   \<and> parse_lambda_config float_decimal ''a:1,5:2'' = Inl AssertionError
   \<and> parse_lambda_config float_decimal ''5:1,5:2'' = Inl AssertionError"
  using parse_lambda_config_contract[of float_decimal "''3''" "\<lambda>s. if s = [''0'', ''0''] then 0 else 1"]
    parse_lambda_config_contract[of float_decimal "''0:0,100:1''" "\<lambda>s. if s = [''0'', ''0''] then 0 else 1"]
    parse_lambda_config_contract[of float_decimal "''a:1,5:2''" "\<lambda>s. 0"]
    parse_lambda_config_contract[of float_decimal "''5:1,5:2''" "\<lambda>s. 0"]
  by (simp add: float_decimal_def isdigit_def is_digit_char_def int_of_digits_def digit_val_def)

lemma filter_upt_unique:
  assumes "i < n" and "\<forall>j < n. P j \<longleftrightarrow> j = i"
  shows "filter P [0 ..< n] = [i]"
proof -
  have "filter P [0 ..< n] = filter (\<lambda>j. j = i) [0 ..< n]"
    using assms(2) by (intro filter_cong) auto
  also have "\<dots> = [i]"
    using assms(1) by (induction n) (auto simp: less_Suc_eq)
  finally show ?thesis .
qed

lemma increasing_steps_mono:
  fixes config :: schedule
  assumes "sorted_wrt (<) (map fst config)" and "i < j" and "j < length config"
  shows "fst (config ! i) < fst (config ! j)"
  using assms by (auto simp: sorted_wrt_iff_nth_less)

lemma increasing_steps_le:
  fixes config :: schedule
  assumes "sorted_wrt (<) (map fst config)" and "i \<le> j" and "j < length config"
  shows "fst (config ! i) \<le> fst (config ! j)"
proof (cases "i = j")
  case True then show ?thesis by simp
next
  case False
  then have "i < j" using assms(2) by simp
  then show ?thesis using increasing_steps_mono[OF assms(1) _ assms(3), of i] by simp
qed

lemma lambda_step_func_last:
  assumes inc: "sorted_wrt (<) (map fst config)" and ne: "config \<noteq> []"
    and ge: "fst (last config) \<le> n_iter"
  shows "lambda_step_func config n_iter = Inr (snd (last config))"
proof -
  have "\<forall>i < length config - 1. \<not> n_iter < fst (config ! (i + 1))"
  proof (intro allI impI)
    fix i assume i: "i < length config - 1"
    have "fst (config ! (i + 1)) \<le> fst (config ! (length config - 1))"
      by (rule increasing_steps_le[OF inc]) (use i ne in auto)
    then show "\<not> n_iter < fst (config ! (i + 1))"
      using ge ne by (simp add: last_conv_nth)
  qed
  then have "filter (\<lambda>i. fst (config ! i) \<le> n_iter \<and> n_iter < fst (config ! (i + 1)))
               [0 ..< length config - 1] = []"
    by (auto simp: filter_empty_conv)
  then show ?thesis using ne ge by (simp add: lambda_step_func_def)
qed

lemma lambda_step_func_before_first:
  assumes inc: "sorted_wrt (<) (map fst config)" and ne: "config \<noteq> []"
    and lt: "n_iter < fst (hd config)"
  shows "lambda_step_func config n_iter = Inl AssertionError"
proof -
  have lo: "\<forall>i < length config. fst (hd config) \<le> fst (config ! i)"
  proof (intro allI impI)
    fix i assume "i < length config"
    then show "fst (hd config) \<le> fst (config ! i)"
      using increasing_steps_le[OF inc, of 0 i] ne by (simp add: hd_conv_nth)
  qed
  have "\<forall>i < length config - 1. \<not> fst (config ! i) \<le> n_iter"
  proof (intro allI impI)
    fix i assume "i < length config - 1"
    then have "fst (hd config) \<le> fst (config ! i)" using lo by simp
    then show "\<not> fst (config ! i) \<le> n_iter" using lt by linarith
  qed
  then have "filter (\<lambda>i. fst (config ! i) \<le> n_iter \<and> n_iter < fst (config ! (i + 1)))
               [0 ..< length config - 1] = []"
    by (auto simp: filter_empty_conv)
  moreover have "\<not> fst (last config) \<le> n_iter"
  proof -
    have "fst (hd config) \<le> fst (config ! (length config - 1))" using lo ne by simp
    then show ?thesis using lt ne by (simp add: last_conv_nth)
  qed
  ultimately show ?thesis using ne by (simp add: lambda_step_func_def)
qed

lemma lambda_step_func_between:
  assumes inc: "sorted_wrt (<) (map fst config)"
    and i: "i + 1 < length config"
    and lo: "fst (config ! i) \<le> n_iter" and hi: "n_iter < fst (config ! (i + 1))"
  shows "lambda_step_func config n_iter =
           Inr (snd (config ! i) + real_of_int (n_iter - fst (config ! i))
                  * (snd (config ! (i + 1)) - snd (config ! i))
                  / real_of_int (fst (config ! (i + 1)) - fst (config ! i)))"
proof -
  have uniq: "\<forall>j < length config - 1.
          (fst (config ! j) \<le> n_iter \<and> n_iter < fst (config ! (j + 1))) \<longleftrightarrow> j = i"
  proof (intro allI impI iffI)
    fix j assume j: "j < length config - 1"
      and b: "fst (config ! j) \<le> n_iter \<and> n_iter < fst (config ! (j + 1))"
    show "j = i"
    proof (rule ccontr)
      assume "j \<noteq> i"
      then consider "j < i" | "i < j" by linarith
      then show False
      proof cases
        case 1
        then have "fst (config ! (j + 1)) \<le> fst (config ! i)"
          by (intro increasing_steps_le[OF inc]) (use i in auto)
        then show False using b lo by linarith
      next
        case 2
        then have "fst (config ! (i + 1)) \<le> fst (config ! j)"
          by (intro increasing_steps_le[OF inc]) (use j in auto)
        then show False using b hi by linarith
      qed
    qed
  next
    fix j assume "j = i"
    then show "fst (config ! j) \<le> n_iter \<and> n_iter < fst (config ! (j + 1))"
      using lo hi by simp
  qed
  have "filter (\<lambda>j. fst (config ! j) \<le> n_iter \<and> n_iter < fst (config ! (j + 1)))
               [0 ..< length config - 1] = [i]"
    by (rule filter_upt_unique) (use i uniq in auto)
  then show ?thesis by (simp add: lambda_step_func_def Let_def)
qed

text \<open>
  Claim C3 (as amended). For a non-empty schedule with strictly increasing steps,
  \<^verbatim>\<open>lambda_step_func\<close> returns the last checkpoint's value at every step at or beyond
  the last checkpoint, the linear interpolation of the two bracketing checkpoints at every
  step from one checkpoint up to (excluding) the next, and fails its assertion at every
  step before the first checkpoint.
\<close>

theorem lambda_step_func_evaluation:
  assumes "sorted_wrt (<) (map fst config)" and "config \<noteq> []"
  shows "(fst (last config) \<le> n_iter \<longrightarrow> lambda_step_func config n_iter = Inr (snd (last config)))
     \<and> (\<forall>i. i + 1 < length config \<and> fst (config ! i) \<le> n_iter \<and> n_iter < fst (config ! (i + 1))
          \<longrightarrow> lambda_step_func config n_iter =
                Inr (snd (config ! i) + real_of_int (n_iter - fst (config ! i))
                      * (snd (config ! (i + 1)) - snd (config ! i))
                      / real_of_int (fst (config ! (i + 1)) - fst (config ! i))))
     \<and> (n_iter < fst (hd config) \<longrightarrow> lambda_step_func config n_iter = Inl AssertionError)"
  using assms lambda_step_func_last lambda_step_func_between lambda_step_func_before_first
  by blast

theorem lambda_step_func_evaluation_witness:
  "lambda_step_func [(0, 1), (1000, 0)] 500 = Inr (1 / 2)
   \<and> lambda_step_func [(0, 1), (1000, 0)] 1000 = Inr 0
   \<and> lambda_step_func [(0, 1), (1000, 0)] 5000 = Inr 0
   \<and> lambda_step_func [(0, 1), (1000, 0)] (- 1) = Inl AssertionError"
proof -
  have s: "sorted_wrt (<) (map fst [(0::int, 1::real), (1000, 0)])" by simp
  have n: "[(0::int, 1::real), (1000, 0)] \<noteq> []" by simp
  show ?thesis
    using lambda_step_func_evaluation[OF s n, of 500]
      lambda_step_func_evaluation[OF s n, of 1000]
      lambda_step_func_evaluation[OF s n, of 5000]
      lambda_step_func_evaluation[OF s n, of "- 1"]
    by (auto dest: spec[of _ 0])
qed

text \<open>
  The claim as written promises the configured initial value before the first checkpoint;
  for the schedule \<^verbatim>\<open>"10:1,20:0"\<close> (initial value \<open>1.0\<close>) at step \<open>5\<close> the assertion
  fails instead.
\<close>

theorem lambda_step_func_before_first_counterexample:
  "lambda_step_func [(10, 1), (20, 0)] 5 = Inl AssertionError
   \<and> lambda_step_func [(10, 1), (20, 0)] 5 \<noteq> Inr 1"
  by (simp add: lambda_step_func_def)

section \<open>Properties of the language-token policy\<close>

lemma sum_list_replicate_update:
  fixes p q :: real
  shows "i < n \<Longrightarrow> sum_list ((replicate n p)[i := q]) = real (n - 1) * p + q"
proof (induction n arbitrary: i)
  case 0 then show ?case by simp
next
  case (Suc n)
  show ?case
  proof (cases i)
    case 0 then show ?thesis by (simp add: sum_list_replicate)
  next
    case (Suc j)
    then have j: "j < n" using Suc.prems by simp
    then obtain m where n: "n = Suc m" by (cases n) auto
    from Suc.IH[OF j] have "sum_list ((replicate n p)[j := q]) = real (n - 1) * p + q" .
    then show ?thesis using Suc n by (simp add: algebra_simps)
  qed
qed

lemma ex_tok_de: "lang_token_index example_dict ''de'' = Inr 5"
  by (simp add: example_dict_def lang_token_index_def lang_token_def dict_index_def)

lemma ex_tok_fr: "lang_token_index example_dict ''fr'' = Inr 7"
  by (simp add: example_dict_def lang_token_index_def lang_token_def dict_index_def)

lemma ex_dicts_en: "dicts_get example_task (Some ''en'') = Inr example_dict"
  by (simp add: example_task_def dicts_get_def getitem_def)

lemma ex_enc: "get_encoder_langtok example_task (Some ''en'') ''de'' = Inr 5"
   "get_encoder_langtok example_task (Some ''en'') ''fr'' = Inr 7"
  by (simp_all add: get_encoder_langtok_def ex_dicts_en ex_tok_de ex_tok_fr bind_def)
     (simp_all add: example_task_def example_args_def)

lemma index_of_less: "x \<in> set xs \<Longrightarrow> index_of x xs < length xs"
  by (induction xs) auto

lemma bind_Inr_iff: "bind m f = Inr r \<longleftrightarrow> (\<exists>v. m = Inr v \<and> f v = Inr r)"
  by (cases m) (auto simp: bind_def)

lemma alter_dataset_langtok_Inr:
  assumes policy: "encoder_langtok (args st) \<noteq> None \<or> decoder_langtok (args st)"
    and res: "alter_dataset_langtok st ds se sl te tg tls sp = Inr r"
  shows "\<exists>tr l p. soft_tag_lists st sl tg tls sp = Inr (l, p)
           \<and> r = TransformEosLangPairDataset ds tr
           \<and> new_src_eos_list tr = l \<and> new_src_eos_list_probs tr = p"
proof -
  have n: "\<not> (encoder_langtok (args st) = None \<and> \<not> decoder_langtok (args st))"
    using policy by blast
  from res show ?thesis
    unfolding alter_dataset_langtok_def if_not_P[OF n] bind_Inr_iff
    by (elim exE conjE) (auto split: prod.splits simp: bind_Inr_iff)
qed

lemma alter_dataset_langtok_Inl:
  assumes policy: "encoder_langtok (args st) \<noteq> None \<or> decoder_langtok (args st)"
    and soft: "soft_tag_lists st sl tg tls sp = Inl e"
  shows "\<exists>e'. alter_dataset_langtok st ds se sl te tg tls sp = Inl e'"
proof -
  have n: "\<not> (encoder_langtok (args st) = None \<and> \<not> decoder_langtok (args st))"
    using policy by blast
  have "\<not> (\<exists>r. alter_dataset_langtok st ds se sl te tg tls sp = Inr r)"
  proof
    assume "\<exists>r. alter_dataset_langtok st ds se sl te tg tls sp = Inr r"
    then obtain r where "alter_dataset_langtok st ds se sl te tg tls sp = Inr r" ..
    from alter_dataset_langtok_Inr[OF policy this] soft show False by auto
  qed
  then show ?thesis
    by (cases "alter_dataset_langtok st ds se sl te tg tls sp") auto
qed
lemma soft_tag_lists_two:
  assumes "tgt_lang \<in> set tgt_langs" and "2 \<le> length tgt_langs"
  shows "soft_tag_lists st src_lang (Some tgt_lang) tgt_langs ''train'' =
           bind (map_err (\<lambda>t. get_encoder_langtok st src_lang t) tgt_langs) (\<lambda>eos_list.
             Inr (Some eos_list,
                  Some ((replicate (length tgt_langs)
                           (sample_tag_prob (args st) / real (length tgt_langs - 1)))
                          [index_of tgt_lang tgt_langs := 1 - sample_tag_prob (args st)])))"
proof -
  have nz: "int (length tgt_langs) - 1 \<noteq> 0" using assms(2) by simp
  have cast: "real_of_int (int (length tgt_langs) - 1) = real (length tgt_langs - 1)"
    using assms(2) by (simp add: of_nat_diff)
  have d: "py_div (sample_tag_prob (args st)) (int (length tgt_langs) - 1)
             = Inr (sample_tag_prob (args st) / real (length tgt_langs - 1))"
    unfolding py_div_def cast[symmetric] using nz by simp
  have c: "Some tgt_lang \<in> Some ` set tgt_langs"
    using assms(1) by blast
  show ?thesis
    by (cases "map_err (\<lambda>t. get_encoder_langtok st src_lang t) tgt_langs")
       (simp_all add: soft_tag_lists_def c d bind_def)
qed

lemma soft_tag_lists_one:
  assumes "tgt_lang \<in> set tgt_langs" and "length tgt_langs = 1"
  shows "soft_tag_lists st src_lang (Some tgt_lang) tgt_langs ''train'' = Inl ZeroDivisionError"
  using assms by (simp add: soft_tag_lists_def py_div_def bind_def)

lemma map_err_Inr_nth:
  "map_err f xs = Inr ys \<Longrightarrow> length ys = length xs \<and> (\<forall>j < length xs. f (xs ! j) = Inr (ys ! j))"
proof (induction xs arbitrary: ys)
  case Nil
  then show ?case by simp
next
  case (Cons x xs)
  from Cons.prems obtain y ys' where y: "f x = Inr y" and r: "map_err f xs = Inr ys'"
    and e: "ys = y # ys'"
    by (auto simp: bind_Inr_iff)
  from Cons.IH[OF r] have l: "length ys' = length xs"
    and n: "\<forall>j < length xs. f (xs ! j) = Inr (ys' ! j)"
    by simp_all
  have "\<forall>j < length (x # xs). f ((x # xs) ! j) = Inr (ys ! j)"
  proof (intro allI impI)
    fix j assume "j < length (x # xs)"
    then show "f ((x # xs) ! j) = Inr (ys ! j)"
      using y n e by (cases j) simp_all
  qed
  with l e show ?case by simp
qed

lemma index_of_nth: "x \<in> set xs \<Longrightarrow> xs ! index_of x xs = x"
  by (induction xs) auto

lemma alter_dataset_langtok_no_policy:
  assumes "\<not> (encoder_langtok (args st) \<noteq> None \<or> decoder_langtok (args st))"
  shows "alter_dataset_langtok st ds se sl te tg tls sp = Inr ds"
  using assms by (simp add: alter_dataset_langtok_def)

text \<open>
  Claim C7 (as amended). A language-token policy is configured when the encoder token
  mode is set or the decoder token flag is on; without one \<^verbatim>\<open>alter_dataset_langtok\<close>
  returns its dataset unchanged and builds no distribution. With one, on the split
  \<^verbatim>\<open>'train'\<close> and the target language among the eligible ones: with at least two
  eligible targets, every dataset the method returns carries the list of the encoder
  tokens of the eligible targets, in their order, and a probability list of the same length
  with \<open>1 - sample_tag_prob\<close> at the position of the true target's token,
  \<open>sample_tag_prob / (n - 1)\<close> at each of the other \<open>n - 1\<close> positions, and sum \<open>1\<close>; with
  exactly one eligible target the division raises \<open>ZeroDivisionError\<close> and the method
  returns no dataset.
\<close>

theorem alter_dataset_langtok_soft_tags:
  assumes member: "tgt_lang \<in> set tgt_langs"
  shows "((encoder_langtok (args st) \<noteq> None \<or> decoder_langtok (args st))
          \<and> 2 \<le> length tgt_langs
          \<and> alter_dataset_langtok st ds se src_lang te (Some tgt_lang) tgt_langs ''train'' = Inr r
          \<longrightarrow> (\<exists>tr probs toks. r = TransformEosLangPairDataset ds tr
                \<and> new_src_eos_list tr = Some toks
                \<and> new_src_eos_list_probs tr = Some probs
                \<and> length toks = length tgt_langs
                \<and> length probs = length tgt_langs
                \<and> (\<forall>j < length tgt_langs.
                      get_encoder_langtok st src_lang (tgt_langs ! j) = Inr (toks ! j))
                \<and> get_encoder_langtok st src_lang tgt_lang
                      = Inr (toks ! index_of tgt_lang tgt_langs)
                \<and> probs ! index_of tgt_lang tgt_langs = 1 - sample_tag_prob (args st)
                \<and> (\<forall>j < length tgt_langs. j \<noteq> index_of tgt_lang tgt_langs \<longrightarrow>
                      probs ! j = sample_tag_prob (args st) / real (length tgt_langs - 1))
                \<and> sum_list probs = 1))
       \<and> ((encoder_langtok (args st) \<noteq> None \<or> decoder_langtok (args st))
            \<and> length tgt_langs = 1 \<longrightarrow>
            (\<exists>e. alter_dataset_langtok st ds se src_lang te (Some tgt_lang) tgt_langs ''train''
                    = Inl e)
            \<and> soft_tag_lists st src_lang (Some tgt_lang) tgt_langs ''train''
                    = Inl ZeroDivisionError)
       \<and> (\<not> (encoder_langtok (args st) \<noteq> None \<or> decoder_langtok (args st)) \<longrightarrow>
            alter_dataset_langtok st ds se src_lang te (Some tgt_lang) tgt_langs ''train''
              = Inr ds)"
proof (intro conjI impI)
  assume a: "(encoder_langtok (args st) \<noteq> None \<or> decoder_langtok (args st))
          \<and> 2 \<le> length tgt_langs
          \<and> alter_dataset_langtok st ds se src_lang te (Some tgt_lang) tgt_langs ''train'' = Inr r"
  let ?n = "length tgt_langs"
  let ?i = "index_of tgt_lang tgt_langs"
  let ?s = "sample_tag_prob (args st)"
  let ?probs = "(replicate ?n (?s / real (?n - 1)))[?i := 1 - ?s]"
  have i: "?i < ?n" using member by (rule index_of_less)
  from a have policy: "encoder_langtok (args st) \<noteq> None \<or> decoder_langtok (args st)"
    and two: "2 \<le> ?n"
    and res: "alter_dataset_langtok st ds se src_lang te (Some tgt_lang) tgt_langs ''train'' = Inr r"
    by simp_all
  from alter_dataset_langtok_Inr[OF policy res] obtain tr l p
    where soft: "soft_tag_lists st src_lang (Some tgt_lang) tgt_langs ''train'' = Inr (l, p)"
      and r: "r = TransformEosLangPairDataset ds tr"
      and tl: "new_src_eos_list tr = l"
      and p: "new_src_eos_list_probs tr = p"
    by blast
  from soft obtain toks where
    me: "map_err (\<lambda>t. get_encoder_langtok st src_lang t) tgt_langs = Inr toks"
    and ll: "l = Some toks" and pp: "p = Some ?probs"
    unfolding soft_tag_lists_two[OF member two] by (auto simp: bind_Inr_iff)
  from map_err_Inr_nth[OF me] have lt: "length toks = ?n"
    and al: "\<forall>j < ?n. get_encoder_langtok st src_lang (tgt_langs ! j) = Inr (toks ! j)"
    by simp_all
  from al i have "get_encoder_langtok st src_lang (tgt_langs ! ?i) = Inr (toks ! ?i)"
    by blast
  then have own: "get_encoder_langtok st src_lang tgt_lang = Inr (toks ! ?i)"
    using index_of_nth[OF member] by simp
  have "sum_list ?probs = real (?n - 1) * (?s / real (?n - 1)) + (1 - ?s)"
    using i by (rule sum_list_replicate_update)
  also have "\<dots> = 1" using two by simp
  finally have s: "sum_list ?probs = 1" .
  have pr: "length ?probs = ?n" "?probs ! ?i = 1 - ?s"
    "\<forall>j < ?n. j \<noteq> ?i \<longrightarrow> ?probs ! j = ?s / real (?n - 1)"
    using i by simp_all
  show "\<exists>tr probs toks. r = TransformEosLangPairDataset ds tr
                \<and> new_src_eos_list tr = Some toks
                \<and> new_src_eos_list_probs tr = Some probs
                \<and> length toks = length tgt_langs
                \<and> length probs = length tgt_langs
                \<and> (\<forall>j < length tgt_langs.
                      get_encoder_langtok st src_lang (tgt_langs ! j) = Inr (toks ! j))
                \<and> get_encoder_langtok st src_lang tgt_lang
                      = Inr (toks ! index_of tgt_lang tgt_langs)
                \<and> probs ! index_of tgt_lang tgt_langs = 1 - sample_tag_prob (args st)
                \<and> (\<forall>j < length tgt_langs. j \<noteq> index_of tgt_lang tgt_langs \<longrightarrow>
                      probs ! j = sample_tag_prob (args st) / real (length tgt_langs - 1))
                \<and> sum_list probs = 1"
  proof (intro exI[of _ tr] exI[of _ ?probs] exI[of _ toks] conjI)
    show "r = TransformEosLangPairDataset ds tr" by (rule r)
    show "new_src_eos_list tr = Some toks" using tl ll by simp
    show "new_src_eos_list_probs tr = Some ?probs" using p pp by simp
    show "length toks = ?n" by (rule lt)
    show "length ?probs = ?n" by (rule pr(1))
    show "\<forall>j < ?n. get_encoder_langtok st src_lang (tgt_langs ! j) = Inr (toks ! j)"
      by (rule al)
    show "get_encoder_langtok st src_lang tgt_lang = Inr (toks ! ?i)" by (rule own)
    show "?probs ! ?i = 1 - ?s" by (rule pr(2))
    show "\<forall>j < ?n. j \<noteq> ?i \<longrightarrow> ?probs ! j = ?s / real (?n - 1)" by (rule pr(3))
    show "sum_list ?probs = 1" by (rule s)
  qed
next
  assume b: "(encoder_langtok (args st) \<noteq> None \<or> decoder_langtok (args st))
            \<and> length tgt_langs = 1"
  then have policy: "encoder_langtok (args st) \<noteq> None \<or> decoder_langtok (args st)"
    and one: "length tgt_langs = 1" by simp_all
  have z: "soft_tag_lists st src_lang (Some tgt_lang) tgt_langs ''train'' = Inl ZeroDivisionError"
    using member one by (rule soft_tag_lists_one)
  show "\<exists>e. alter_dataset_langtok st ds se src_lang te (Some tgt_lang) tgt_langs ''train'' = Inl e"
    using policy z by (rule alter_dataset_langtok_Inl)
  show "soft_tag_lists st src_lang (Some tgt_lang) tgt_langs ''train'' = Inl ZeroDivisionError"
    by (rule z)
next
  assume "\<not> (encoder_langtok (args st) \<noteq> None \<or> decoder_langtok (args st))"
  then show "alter_dataset_langtok st ds se src_lang te (Some tgt_lang) tgt_langs ''train''
              = Inr ds"
    by (rule alter_dataset_langtok_no_policy)
qed

lemma ex_policy: "encoder_langtok (args example_task) \<noteq> None \<or> decoder_langtok (args example_task)"
  by (simp add: example_task_def example_args_def)

lemma ex_stp: "sample_tag_prob (args example_task) = 1 / 4"
  by (simp add: example_task_def example_args_def)

lemma ex_enc_tgt: "encoder_langtok (args example_task) = Some ''tgt''"
    "decoder_langtok (args example_task) = False"
  by (simp_all add: example_task_def example_args_def)

lemma ex_soft2: "soft_tag_lists example_task (Some ''en'') (Some ''de'') [''de'', ''fr''] ''train''
    = Inr (Some [5, 7], Some [3 / 4, 1 / 4])"
  by (simp add: soft_tag_lists_def py_div_def bind_def ex_enc ex_stp)

lemma ex_alter2: "alter_dataset_langtok example_task (IndexedDataset ''d'') (Some 2) (Some ''en'') None
         (Some ''de'') [''de'', ''fr''] ''train''
       = Inr (TransformEosLangPairDataset (IndexedDataset ''d'')
               \<lparr>src_eos = Some 2, new_src_eos = Some 5, tgt_bos = None, new_tgt_bos = None,
                new_src_eos_list = Some [5, 7], new_src_eos_list_probs = Some [3 / 4, 1 / 4],
                tr_split = ''train''\<rparr>)"
  by (simp add: alter_dataset_langtok_def ex_enc_tgt ex_enc ex_soft2 bind_def)

theorem alter_dataset_langtok_soft_tags_witness:
  "alter_dataset_langtok example_task (IndexedDataset ''d'') (Some 2) (Some ''en'') None
         (Some ''de'') [''de'', ''fr''] ''train''
       = Inr (TransformEosLangPairDataset (IndexedDataset ''d'')
               \<lparr>src_eos = Some 2, new_src_eos = Some 5, tgt_bos = None, new_tgt_bos = None,
                new_src_eos_list = Some [5, 7], new_src_eos_list_probs = Some [3 / 4, 1 / 4],
                tr_split = ''train''\<rparr>)
   \<and> get_encoder_langtok example_task (Some ''en'') ''de'' = Inr 5
   \<and> sum_list [3 / 4, 1 / 4 :: real] = 1
   \<and> (\<exists>e. alter_dataset_langtok example_task (IndexedDataset ''d'') (Some 2) (Some ''en'') None
         (Some ''de'') [''de''] ''train'' = Inl e)
   \<and> soft_tag_lists example_task (Some ''en'') (Some ''de'') [''de''] ''train''
         = Inl ZeroDivisionError
   \<and> alter_dataset_langtok unmarked_task (IndexedDataset ''d'') (Some 2) (Some ''en'') None
         (Some ''de'') [''de''] ''train'' = Inr (IndexedDataset ''d'')"
proof -
  have m2: "''de'' \<in> set [''de'', ''fr'']" and m1: "''de'' \<in> set [''de'']" by simp_all
  have l1: "length [''de''] = 1" by simp
  have np: "\<not> (encoder_langtok (args unmarked_task) \<noteq> None
               \<or> decoder_langtok (args unmarked_task))"
    by (simp add: unmarked_task_def example_task_def example_args_def)
  let ?r = "TransformEosLangPairDataset (IndexedDataset ''d'')
               \<lparr>src_eos = Some 2, new_src_eos = Some 5, tgt_bos = None, new_tgt_bos = None,
                new_src_eos_list = Some [5, 7], new_src_eos_list_probs = Some [3 / 4, 1 / 4],
                tr_split = ''train''\<rparr>"
  from alter_dataset_langtok_soft_tags[OF m2,
      of example_task "IndexedDataset ''d''" "Some 2" "Some ''en''" None ?r]
    ex_policy ex_alter2
  have "\<exists>tr probs toks. ?r = TransformEosLangPairDataset (IndexedDataset ''d'') tr
          \<and> new_src_eos_list tr = Some toks
          \<and> new_src_eos_list_probs tr = Some probs
          \<and> get_encoder_langtok example_task (Some ''en'') ''de''
                = Inr (toks ! index_of ''de'' [''de'', ''fr''])
          \<and> sum_list probs = 1"
    by auto
  then have two: "get_encoder_langtok example_task (Some ''en'') ''de'' = Inr 5
      \<and> sum_list [3 / 4, 1 / 4 :: real] = 1"
    by auto
  from alter_dataset_langtok_soft_tags[OF m1,
      of example_task "IndexedDataset ''d''" "Some 2" "Some ''en''" None] ex_policy l1
  have one: "(\<exists>e. alter_dataset_langtok example_task (IndexedDataset ''d'') (Some 2)
         (Some ''en'') None (Some ''de'') [''de''] ''train'' = Inl e)
     \<and> soft_tag_lists example_task (Some ''en'') (Some ''de'') [''de''] ''train''
         = Inl ZeroDivisionError"
    by blast
  from alter_dataset_langtok_soft_tags[OF m1,
      of unmarked_task "IndexedDataset ''d''" "Some 2" "Some ''en''" None] np
  have none: "alter_dataset_langtok unmarked_task (IndexedDataset ''d'') (Some 2) (Some ''en'')
         None (Some ''de'') [''de''] ''train'' = Inr (IndexedDataset ''d'')"
    by blast
  from ex_alter2 two one none show ?thesis by blast
qed

text \<open>
  The claim as written has no such condition: with neither token policy configured and
  exactly one eligible target language, the method returns its dataset unchanged instead
  of dividing by zero, and there is no sampling distribution.
\<close>

theorem alter_dataset_langtok_no_policy_counterexample:
  "''de'' \<in> set [''de'']
   \<and> length [''de''] = 1
   \<and> alter_dataset_langtok unmarked_task (IndexedDataset ''d'') (Some 2) (Some ''en'') None
         (Some ''de'') [''de''] ''train'' = Inr (IndexedDataset ''d'')"
  by (simp add: alter_dataset_langtok_def unmarked_task_def example_task_def example_args_def)

section \<open>Properties of task setup\<close>

lemma special_add_symbol: "special_indices (add_symbol d w) = special_indices d"
  by (simp add: special_indices_def add_symbol_def)

lemma special_add_symbols:
  "special_indices (foldl (\<lambda>dl l. add_symbol dl (f l)) d ls) = special_indices d"
  by (induction ls arbitrary: d) (simp_all add: special_add_symbol)


lemma update_nonempty: "length (AList.update k v al) > 0"
  by (cases al) (auto simp: AList.update.simps)

lemma paths_nonempty: "split_str sep x \<noteq> []"
  using length_split_str[of sep x] by auto

lemma load_dicts_Cons:
  "load_dicts ld cli sl (lang # rest) ds =
     (case ld (dict_path (cli_data cli) lang) of
        Inl e \<Rightarrow> Inl e
      | Inr d \<Rightarrow>
          (case map_of (AList.update lang d ds) (sl ! 0) of
             None \<Rightarrow> Inl (KeyError (sl ! 0))
           | Some d0 \<Rightarrow>
               if special_indices d = special_indices d0 then
                 load_dicts ld cli sl rest
                   (AList.update lang
                      (if cli_encoder_langtok cli \<noteq> None \<or> cli_decoder_langtok cli
                       then foldl (\<lambda>dl lang_to_add. add_symbol dl (lang_token lang_to_add)) d sl
                       else d) ds)
               else Inl AssertionError))"
proof (cases "ld (dict_path (cli_data cli) lang)")
  case (Inl e)
  then show ?thesis by (simp add: Let_def paths_nonempty bind_def dict_path_def)
next
  case (Inr d)
  show ?thesis
  proof (cases "map_of (AList.update lang d ds) (sl ! 0)")
    case None
    then show ?thesis
      using Inr by (simp add: Let_def paths_nonempty update_nonempty bind_def dict_path_def getitem_def)
  next
    case (Some d0)
    show ?thesis
    proof (cases "special_indices d = special_indices d0")
      case True
      then have "pad_index d = pad_index d0" "eos_index d = eos_index d0"
        "unk_index d = unk_index d0"
        by (simp_all add: special_indices_def)
      then show ?thesis
        using Inr Some True
        by (simp add: Let_def paths_nonempty update_nonempty bind_def dict_path_def getitem_def
              update_last)
    next
      case False
      then have "\<not> (pad_index d = pad_index d0 \<and> eos_index d = eos_index d0
                  \<and> unk_index d = unk_index d0)"
        by (simp add: special_indices_def)
      then show ?thesis
        using Inr Some False
        by (auto simp add: Let_def paths_nonempty update_nonempty bind_def dict_path_def getitem_def)
    qed
  qed
qed

lemma load_dicts_step:
  assumes "load_dicts ld cli sl (lang # rest) ds = Inr ds'"
  shows "\<exists>d d0 dnew. ld (dict_path (cli_data cli) lang) = Inr d
           \<and> map_of (AList.update lang d ds) (sl ! 0) = Some d0
           \<and> special_indices d = special_indices d0
           \<and> special_indices dnew = special_indices d
           \<and> load_dicts ld cli sl rest (AList.update lang dnew ds) = Inr ds'"
proof -
  from assms obtain d where d: "ld (dict_path (cli_data cli) lang) = Inr d"
    unfolding load_dicts_Cons by (cases "ld (dict_path (cli_data cli) lang)") auto
  from assms d obtain d0 where d0: "map_of (AList.update lang d ds) (sl ! 0) = Some d0"
    unfolding load_dicts_Cons by (cases "map_of (AList.update lang d ds) (sl ! 0)") auto
  from assms d d0 have eq: "special_indices d = special_indices d0"
    unfolding load_dicts_Cons by (cases "special_indices d = special_indices d0") auto
  let ?dn = "if cli_encoder_langtok cli \<noteq> None \<or> cli_decoder_langtok cli
             then foldl (\<lambda>dl lang_to_add. add_symbol dl (lang_token lang_to_add)) d sl
             else d"
  from assms d d0 eq have rec: "load_dicts ld cli sl rest (AList.update lang ?dn ds) = Inr ds'"
    unfolding load_dicts_Cons by simp
  have "special_indices ?dn = special_indices d"
    by (simp add: special_add_symbols)
  with d d0 eq rec show ?thesis by blast
qed

lemma load_dicts_invariant:
  assumes "load_dicts ld cli sl rest ds = Inr ds'"
    and "map_of ds (sl ! 0) = Some d0"
    and "\<forall>l d. map_of ds l = Some d \<longrightarrow> special_indices d = special_indices d0"
    and "sl ! 0 \<notin> set rest"
  shows "(\<forall>l d. map_of ds' l = Some d \<longrightarrow> special_indices d = special_indices d0)
       \<and> (\<forall>lang \<in> set rest. \<exists>d. ld (dict_path (cli_data cli) lang) = Inr d
               \<and> special_indices d = special_indices d0)
       \<and> fst ` set ds' = fst ` set ds \<union> set rest
       \<and> (distinct (map fst ds) \<longrightarrow> distinct (map fst ds'))"
  using assms
proof (induction rest arbitrary: ds)
  case Nil
  from Nil.prems(1) have e: "ds' = ds" by simp
  show ?case unfolding e
  proof (intro conjI)
    show "\<forall>l d. map_of ds l = Some d \<longrightarrow> special_indices d = special_indices d0"
      by (rule Nil.prems(3))
  qed simp_all
next
  case (Cons lang rest)
  from load_dicts_step[OF Cons.prems(1)] obtain d d1 dnew
    where d: "ld (dict_path (cli_data cli) lang) = Inr d"
      and d1: "map_of (AList.update lang d ds) (sl ! 0) = Some d1"
      and eq1: "special_indices d = special_indices d1"
      and eqn: "special_indices dnew = special_indices d"
      and rec: "load_dicts ld cli sl rest (AList.update lang dnew ds) = Inr ds'"
    by blast
  have neq: "sl ! 0 \<noteq> lang" using Cons.prems(4) by auto
  have "map_of (AList.update lang d ds) (sl ! 0) = map_of ds (sl ! 0)"
    using neq by (simp add: update_conv')
  with d1 Cons.prems(2) have d1d0: "d1 = d0" by simp
  have a: "map_of (AList.update lang dnew ds) (sl ! 0) = Some d0"
    using neq Cons.prems(2) by (simp add: update_conv')
  have b: "\<forall>l x. map_of (AList.update lang dnew ds) l = Some x
             \<longrightarrow> special_indices x = special_indices d0"
  proof (intro allI impI)
    fix l x assume m: "map_of (AList.update lang dnew ds) l = Some x"
    show "special_indices x = special_indices d0"
    proof (cases "l = lang")
      case True
      with m have "x = dnew" by (simp add: update_conv')
      then show ?thesis using eqn eq1 d1d0 by simp
    next
      case False
      with m have "map_of ds l = Some x" by (simp add: update_conv')
      with Cons.prems(3) show ?thesis by blast
    qed
  qed
  have c: "sl ! 0 \<notin> set rest" using Cons.prems(4) by simp
  from Cons.IH[OF rec a b c]
  have ih1: "\<forall>l d. map_of ds' l = Some d \<longrightarrow> special_indices d = special_indices d0"
    and ih2: "\<forall>lang \<in> set rest. \<exists>d. ld (dict_path (cli_data cli) lang) = Inr d
               \<and> special_indices d = special_indices d0"
    and ih3: "fst ` set ds' = fst ` set (AList.update lang dnew ds) \<union> set rest"
    and ih4: "distinct (map fst (AList.update lang dnew ds)) \<longrightarrow> distinct (map fst ds')"
    by blast+
  have k: "fst ` set (AList.update lang dnew ds) = insert lang (fst ` set ds)"
    by (simp add: AList.dom_update)
  have h2: "\<forall>l \<in> set (lang # rest). \<exists>d. ld (dict_path (cli_data cli) l) = Inr d
               \<and> special_indices d = special_indices d0"
    using ih2 d eq1 d1d0 by auto
  have h3: "fst ` set ds' = fst ` set ds \<union> set (lang # rest)"
    using ih3 k by auto
  have h4: "distinct (map fst ds) \<longrightarrow> distinct (map fst ds')"
    using ih4 by (simp add: distinct_update)
  from ih1 h2 h3 h4 show ?case by blast
qed

lemma load_dicts_all:
  assumes res: "load_dicts ld cli sl sl [] = Inr ds" and dist: "distinct sl"
  shows "\<exists>t. (\<forall>lang \<in> set sl. \<exists>d. ld (dict_path (cli_data cli) lang) = Inr d
                     \<and> special_indices d = t)
           \<and> (\<forall>l d. map_of ds l = Some d \<longrightarrow> special_indices d = t)
           \<and> fst ` set ds = set sl \<and> distinct (map fst ds)"
proof (cases sl)
  case Nil
  with res have "ds = []" by simp
  with Nil show ?thesis by simp
next
  case (Cons l0 ls)
  have sl0: "sl ! 0 = l0" using Cons by simp
  from res Cons have r0: "load_dicts ld cli sl (l0 # ls) [] = Inr ds" by simp
  from load_dicts_step[OF r0] obtain d d1 dnew
    where d: "ld (dict_path (cli_data cli) l0) = Inr d"
      and eqn: "special_indices dnew = special_indices d"
      and rec: "load_dicts ld cli sl ls (AList.update l0 dnew []) = Inr ds"
    by blast
  have a: "map_of (AList.update l0 dnew []) (sl ! 0) = Some dnew"
    using sl0 by simp
  have b: "\<forall>l x. map_of (AList.update l0 dnew []) l = Some x
             \<longrightarrow> special_indices x = special_indices dnew"
    by (auto split: if_splits)
  have c: "sl ! 0 \<notin> set ls" using dist Cons sl0 by simp
  from load_dicts_invariant[OF rec a b c]
  have i1: "\<forall>l x. map_of ds l = Some x \<longrightarrow> special_indices x = special_indices dnew"
    and i2: "\<forall>lang \<in> set ls. \<exists>x. ld (dict_path (cli_data cli) lang) = Inr x
               \<and> special_indices x = special_indices dnew"
    and i3: "fst ` set ds = fst ` set (AList.update l0 dnew []) \<union> set ls"
    and i4: "distinct (map fst (AList.update l0 dnew [])) \<longrightarrow> distinct (map fst ds)"
    by blast+
  have j2: "\<forall>lang \<in> set sl. \<exists>x. ld (dict_path (cli_data cli) lang) = Inr x
               \<and> special_indices x = special_indices dnew"
    using i2 d eqn Cons by auto
  have j3: "fst ` set ds = set sl" using i3 Cons by simp
  have j4: "distinct (map fst ds)" using i4 by simp
  from j2 i1 j3 j4 show ?thesis by blast
qed

lemma sorted_langs_of_set:
  "set (sorted_langs_of pairs) = (\<Union>p \<in> set pairs. set (split_str (CHR ''-'') p))"
  by (simp add: sorted_langs_of_def)

lemma sorted_langs_of_distinct: "distinct (sorted_langs_of pairs)"
  by (simp add: sorted_langs_of_def)

lemma prepare_Inr:
  assumes "prepare eb ld cli = Inr ((ds, tr), pa)"
  shows "\<exists>s. cli_lang_pairs cli = Some s \<and> p_lang_pairs pa = split_str (CHR '','') s
           \<and> load_dicts ld cli (sorted_langs_of (split_str (CHR '','') s))
                 (sorted_langs_of (split_str (CHR '','') s)) [] = Inr ds"
proof (cases "cli_lang_pairs cli")
  case None
  with assms show ?thesis
    by (auto simp: prepare_def bind_Inr_iff)
next
  case (Some s)
  with assms show ?thesis
    by (auto simp: prepare_def bind_Inr_iff Let_def)
qed

text \<open>
  Claim C8. When \<^verbatim>\<open>prepare\<close> returns, it has loaded exactly one dictionary for every
  language that appears in a configured pair and all of them share the pad, eos and unk
  indices; and whenever the dictionary files of two configured languages disagree on one
  of the three indices, \<^verbatim>\<open>prepare\<close> raises.
\<close>

theorem prepare_dictionaries_consistent:
  "(prepare eval_bool dictionary_load cli = Inr ((ds, tr), pa) \<longrightarrow>
      fst ` set ds = (\<Union>p \<in> set (p_lang_pairs pa). set (split_str (CHR ''-'') p))
      \<and> distinct (map fst ds)
      \<and> (\<forall>l1 d1 l2 d2. (l1, d1) \<in> set ds \<and> (l2, d2) \<in> set ds \<longrightarrow>
            pad_index d1 = pad_index d2 \<and> eos_index d1 = eos_index d2
            \<and> unk_index d1 = unk_index d2))
   \<and> (cli_lang_pairs cli = Some s
        \<and> l1 \<in> (\<Union>p \<in> set (split_str (CHR '','') s). set (split_str (CHR ''-'') p))
        \<and> l2 \<in> (\<Union>p \<in> set (split_str (CHR '','') s). set (split_str (CHR ''-'') p))
        \<and> dictionary_load (dict_path (cli_data cli) l1) = Inr d1
        \<and> dictionary_load (dict_path (cli_data cli) l2) = Inr d2
        \<and> (pad_index d1 \<noteq> pad_index d2 \<or> eos_index d1 \<noteq> eos_index d2
             \<or> unk_index d1 \<noteq> unk_index d2)
      \<longrightarrow> (\<exists>e. prepare eval_bool dictionary_load cli = Inl e))"
proof (intro conjI impI)
  assume res: "prepare eval_bool dictionary_load cli = Inr ((ds, tr), pa)"
  from prepare_Inr[OF res] obtain s' where s': "cli_lang_pairs cli = Some s'"
    and lp: "p_lang_pairs pa = split_str (CHR '','') s'"
    and ld: "load_dicts dictionary_load cli (sorted_langs_of (split_str (CHR '','') s'))
                 (sorted_langs_of (split_str (CHR '','') s')) [] = Inr ds"
    by blast
  from load_dicts_all[OF ld sorted_langs_of_distinct] obtain t
    where same: "\<forall>l d. map_of ds l = Some d \<longrightarrow> special_indices d = t"
      and keys: "fst ` set ds = set (sorted_langs_of (split_str (CHR '','') s'))"
      and dist: "distinct (map fst ds)"
    by (elim exE conjE) (rule that, assumption+)
  show "fst ` set ds = (\<Union>p \<in> set (p_lang_pairs pa). set (split_str (CHR ''-'') p))"
    using keys lp by (simp add: sorted_langs_of_set)
  show "distinct (map fst ds)" by (rule dist)
  show "\<forall>l1 d1 l2 d2. (l1, d1) \<in> set ds \<and> (l2, d2) \<in> set ds \<longrightarrow>
            pad_index d1 = pad_index d2 \<and> eos_index d1 = eos_index d2
            \<and> unk_index d1 = unk_index d2"
  proof (intro allI impI)
    fix l1 d1 l2 d2 assume m: "(l1, d1) \<in> set ds \<and> (l2, d2) \<in> set ds"
    then have "map_of ds l1 = Some d1" "map_of ds l2 = Some d2"
      using dist by simp_all
    with same have "special_indices d1 = t" "special_indices d2 = t" by blast+
    then have "special_indices d1 = special_indices d2" by simp
    then show "pad_index d1 = pad_index d2 \<and> eos_index d1 = eos_index d2
            \<and> unk_index d1 = unk_index d2"
      by (simp add: special_indices_def)
  qed
next
  assume a: "cli_lang_pairs cli = Some s
        \<and> l1 \<in> (\<Union>p \<in> set (split_str (CHR '','') s). set (split_str (CHR ''-'') p))
        \<and> l2 \<in> (\<Union>p \<in> set (split_str (CHR '','') s). set (split_str (CHR ''-'') p))
        \<and> dictionary_load (dict_path (cli_data cli) l1) = Inr d1
        \<and> dictionary_load (dict_path (cli_data cli) l2) = Inr d2
        \<and> (pad_index d1 \<noteq> pad_index d2 \<or> eos_index d1 \<noteq> eos_index d2
             \<or> unk_index d1 \<noteq> unk_index d2)"
  then have lp: "cli_lang_pairs cli = Some s"
    and m1: "l1 \<in> (\<Union>p \<in> set (split_str (CHR '','') s). set (split_str (CHR ''-'') p))"
    and m2: "l2 \<in> (\<Union>p \<in> set (split_str (CHR '','') s). set (split_str (CHR ''-'') p))"
    and f1: "dictionary_load (dict_path (cli_data cli) l1) = Inr d1"
    and f2: "dictionary_load (dict_path (cli_data cli) l2) = Inr d2"
    and ne: "pad_index d1 \<noteq> pad_index d2 \<or> eos_index d1 \<noteq> eos_index d2
             \<or> unk_index d1 \<noteq> unk_index d2"
    by simp_all
  show "\<exists>e. prepare eval_bool dictionary_load cli = Inl e"
  proof (cases "prepare eval_bool dictionary_load cli")
    case (Inl e)
    then show ?thesis by blast
  next
    case (Inr r)
    obtain ds tr pa where r: "r = ((ds, tr), pa)" by (metis surj_pair)
    from prepare_Inr[OF Inr[unfolded r]] obtain s' where "cli_lang_pairs cli = Some s'"
      and ld': "load_dicts dictionary_load cli (sorted_langs_of (split_str (CHR '','') s'))
                 (sorted_langs_of (split_str (CHR '','') s')) [] = Inr ds"
      by blast
    with lp have ld: "load_dicts dictionary_load cli (sorted_langs_of (split_str (CHR '','') s))
                 (sorted_langs_of (split_str (CHR '','') s)) [] = Inr ds"
      by simp
    from load_dicts_all[OF ld sorted_langs_of_distinct] obtain t
      where all: "\<forall>lang \<in> set (sorted_langs_of (split_str (CHR '','') s)).
                    \<exists>d. dictionary_load (dict_path (cli_data cli) lang) = Inr d
                        \<and> special_indices d = t"
      by (elim exE conjE) (rule that, assumption+)
    have i1: "l1 \<in> set (sorted_langs_of (split_str (CHR '','') s))"
      using m1 unfolding sorted_langs_of_set .
    have i2: "l2 \<in> set (sorted_langs_of (split_str (CHR '','') s))"
      using m2 unfolding sorted_langs_of_set .
    from all i1 obtain x1 where "dictionary_load (dict_path (cli_data cli) l1) = Inr x1"
      and "special_indices x1 = t" by blast
    with f1 have t1: "special_indices d1 = t" by simp
    from all i2 obtain x2 where "dictionary_load (dict_path (cli_data cli) l2) = Inr x2"
      and "special_indices x2 = t" by blast
    with f2 have t2: "special_indices d2 = t" by simp
    from t1 t2 have "special_indices d1 = special_indices d2" by simp
    then have "pad_index d1 = pad_index d2 \<and> eos_index d1 = eos_index d2
        \<and> unk_index d1 = unk_index d2"
      by (simp add: special_indices_def)
    with ne have False by blast
    then show ?thesis ..
  qed
qed

lemma ex_prepare_good:
  "prepare example_eval_bool good_files example_cli =
     Inr (([(''de'', example_dict), (''en'', example_dict), (''fr'', example_dict)], True),
          \<lparr>p_left_pad_source = True, p_left_pad_target = False, p_dataset_impl = None,
           p_lang_pairs = [''en-de'', ''en-fr''], p_eval_lang_pairs = [''en-de'', ''en-fr'']\<rparr>)"
  by code_simp

lemma ex_prepare_bad:
  "prepare example_eval_bool bad_files example_cli = Inl AssertionError"
  by code_simp

theorem prepare_dictionaries_consistent_witness:
  "prepare example_eval_bool bad_files example_cli = Inl AssertionError
   \<and> prepare example_eval_bool good_files example_cli =
     Inr (([(''de'', example_dict), (''en'', example_dict), (''fr'', example_dict)], True),
          \<lparr>p_left_pad_source = True, p_left_pad_target = False, p_dataset_impl = None,
           p_lang_pairs = [''en-de'', ''en-fr''], p_eval_lang_pairs = [''en-de'', ''en-fr'']\<rparr>)
   \<and> fst ` set [(''de'', example_dict), (''en'', example_dict), (''fr'', example_dict)]
       = {''en'', ''de'', ''fr''}"
proof -
  have s: "cli_lang_pairs example_cli = Some ''en-de,en-fr''"
    by (simp add: example_cli_def)
  have m1: "''de'' \<in> (\<Union>p \<in> set (split_str (CHR '','') ''en-de,en-fr'').
                         set (split_str (CHR ''-'') p))"
    and m2: "''fr'' \<in> (\<Union>p \<in> set (split_str (CHR '','') ''en-de,en-fr'').
                         set (split_str (CHR ''-'') p))"
    by simp_all
  have f1: "bad_files (dict_path (cli_data example_cli) ''de'') = Inr plain_dict"
    and f2: "bad_files (dict_path (cli_data example_cli) ''fr'') = Inr shifted_dict"
    by (simp_all add: bad_files_def dict_path_def os_path_join_def example_cli_def)
  have ne: "pad_index plain_dict \<noteq> pad_index shifted_dict"
    by (simp add: plain_dict_def shifted_dict_def)
  from prepare_dictionaries_consistent[of example_eval_bool bad_files example_cli _ _ _
      "''en-de,en-fr''" "''de''" "''fr''" plain_dict shifted_dict] s m1 m2 f1 f2 ne
  have "\<exists>e. prepare example_eval_bool bad_files example_cli = Inl e" by blast
  with ex_prepare_bad have bad: "prepare example_eval_bool bad_files example_cli = Inl AssertionError"
    by simp
  from prepare_dictionaries_consistent[of example_eval_bool good_files example_cli
      "[(''de'', example_dict), (''en'', example_dict), (''fr'', example_dict)]" True
      "\<lparr>p_left_pad_source = True, p_left_pad_target = False, p_dataset_impl = None,
           p_lang_pairs = [''en-de'', ''en-fr''], p_eval_lang_pairs = [''en-de'', ''en-fr'']\<rparr>"]
    ex_prepare_good
  have "fst ` set [(''de'', example_dict), (''en'', example_dict), (''fr'', example_dict)]
       = (\<Union>p \<in> set [''en-de'', ''en-fr'']. set (split_str (CHR ''-'') p))"
    by simp
  then have keys: "fst ` set [(''de'', example_dict), (''en'', example_dict), (''fr'', example_dict)]
       = {''en'', ''de'', ''fr''}"
    by auto
  from bad ex_prepare_good keys show ?thesis by blast
qed

section \<open>Properties of model construction\<close>

lemma fold_err_Cons_Inr:
  "fold_err f (x # xs) s = Inr s' \<longleftrightarrow> (\<exists>s1. f x s = Inr s1 \<and> fold_err f xs s1 = Inr s')"
  by (simp add: bind_Inr_iff)

lemma fold_err_invariant:
  assumes "fold_err f xs s = Inr s'" and "P s"
    and "\<And>x t t'. x \<in> set xs \<Longrightarrow> P t \<Longrightarrow> f x t = Inr t' \<Longrightarrow> P t'"
  shows "P s'"
  using assms
proof (induction xs arbitrary: s)
  case Nil
  then show ?case by simp
next
  case (Cons x xs)
  from Cons.prems(1) obtain s1 where s1: "f x s = Inr s1" and r: "fold_err f xs s1 = Inr s'"
    unfolding fold_err_Cons_Inr by blast
  have p1: "P s1" using Cons.prems(3)[of x s s1] Cons.prems(2) s1 by simp
  have step: "\<And>y t t'. y \<in> set xs \<Longrightarrow> P t \<Longrightarrow> f y t = Inr t' \<Longrightarrow> P t'"
    using Cons.prems(3) by auto
  show ?case by (rule Cons.IH[OF r p1 step])
qed

lemma append_reverse_pairs_Inr:
  assumes "append_reverse_pairs xs cur = Inr ext"
  shows "\<exists>revs. ext = cur @ revs \<and> length revs = length xs
           \<and> (\<forall>i < length xs. get_dds_bt_key (xs ! i) = Inr (revs ! i))"
  using assms unfolding append_reverse_pairs_def
proof (induction xs arbitrary: cur)
  case Nil
  then show ?case by simp
next
  case (Cons x xs)
  from Cons.prems obtain c1 where
    c1: "bind (split_pair x) (\<lambda>(src, tgt). Inr (cur @ [tgt @ ''-'' @ src])) = Inr c1"
    and r: "fold_err (\<lambda>lang_pair cur.
        bind (split_pair lang_pair) (\<lambda>(src, tgt). Inr (cur @ [tgt @ ''-'' @ src])))
       xs c1 = Inr ext"
    unfolding fold_err_Cons_Inr by blast
  from c1 obtain src tgt where sp: "split_pair x = Inr (src, tgt)"
    and c1eq: "c1 = cur @ [tgt @ ''-'' @ src]"
    by (auto simp: bind_Inr_iff)
  have k: "get_dds_bt_key x = Inr (tgt @ ''-'' @ src)"
    using sp by (simp add: get_dds_bt_key_def bind_def)
  from Cons.IH[OF r] obtain revs where e: "ext = c1 @ revs" and l: "length revs = length xs"
    and a: "\<forall>i < length xs. get_dds_bt_key (xs ! i) = Inr (revs ! i)"
    by blast
  let ?revs = "(tgt @ ''-'' @ src) # revs"
  have "ext = cur @ ?revs" using e c1eq by simp
  moreover have "length ?revs = length (x # xs)" using l by simp
  moreover have "\<forall>i < length (x # xs). get_dds_bt_key ((x # xs) ! i) = Inr (?revs ! i)"
  proof (intro allI impI)
    fix i assume "i < length (x # xs)"
    then show "get_dds_bt_key ((x # xs) ! i) = Inr (?revs ! i)"
      using k a by (cases i) auto
  qed
  ultimately show ?case by blast
qed

lemma build_data_optimizer_frame:
  assumes "build_data_optimizer s m = Inr t"
  shows "bt_frame s t"
proof (cases "bt_dds (args s)")
  case False
  with assms have "t = s" by (simp add: build_data_optimizer_def)
  then show ?thesis by (simp add: bt_frame_def)
next
  case True
  show ?thesis
  proof (cases "data_actor_lr (args s)")
    case Nil
    with assms True show ?thesis
      by (auto simp: build_data_optimizer_def bind_Inr_iff)
  next
    case (Cons lr rest)
    with assms True obtain v where "t = s\<lparr>data_optimizer := Some (v, lr)\<rparr>"
      by (auto simp: build_data_optimizer_def bind_Inr_iff)
    then show ?thesis by (simp add: bt_frame_def)
  qed
qed

lemma build_backtranslator_frame:
  "build_backtranslator a m lp s = Inr t \<Longrightarrow> bt_frame s t"
  by (auto simp: build_backtranslator_def bt_frame_def bind_Inr_iff Let_def split: prod.splits)

lemma build_backtranslators_frame:
  assumes "fold_err (build_backtranslator a m) xs s = Inr t"
  shows "bt_frame s t"
proof -
  have "bt_frame s s" by (simp add: bt_frame_def)
  with assms show ?thesis
  proof (rule fold_err_invariant[where P = "bt_frame s"])
    fix x u u' assume "bt_frame s u" "build_backtranslator a m x u = Inr u'"
    then show "bt_frame s u'"
      using build_backtranslator_frame[of a m x u u'] by (simp add: bt_frame_def)
  qed
qed

lemma bt_build_model_Inr:
  assumes "bt_build_model mbm st a = Inr (m, st')"
  shows "\<exists>ext st3. append_reverse_pairs (deref st (lang_pairs st)) (deref st (lang_pairs st)) = Inr ext
           \<and> mbm a (st\<lparr>heap := (heap st)[lang_pairs st := ext]\<rparr>) = Inr m
           \<and> is_multi_model m
           \<and> build_data_optimizer
                 (st\<lparr>heap := (heap st)[lang_pairs st := ext] @ [deref st (lang_pairs st)],
                     lang_pairs := length (heap st)\<rparr>) m = Inr st3
           \<and> (if training st3
                then fold_err (build_backtranslator a m)
                       (deref (st3\<lparr>sequence_generators := []\<rparr>)
                          (lang_pairs (st3\<lparr>sequence_generators := []\<rparr>)))
                       (st3\<lparr>sequence_generators := []\<rparr>)
                else Inr (st3\<lparr>sequence_generators := []\<rparr>)) = Inr st'"
proof -
  from assms obtain ext where e: "append_reverse_pairs (deref st (lang_pairs st))
      (deref st (lang_pairs st)) = Inr ext"
    unfolding bt_build_model_def Let_def bind_Inr_iff by blast
  from assms e obtain m' where m': "mbm a (st\<lparr>heap := (heap st)[lang_pairs st := ext]\<rparr>) = Inr m'"
    unfolding bt_build_model_def Let_def by (auto simp: bind_Inr_iff)
  from assms e m' have multi: "is_multi_model m'"
    unfolding bt_build_model_def Let_def by (auto simp: bind_def split: if_splits)
  from assms e m' multi obtain st3 where
    o: "build_data_optimizer
          (st\<lparr>heap := (heap st)[lang_pairs st := ext] @ [deref st (lang_pairs st)],
              lang_pairs := length (heap st)\<rparr>) m' = Inr st3"
    unfolding bt_build_model_def Let_def by (auto simp: bind_Inr_iff)
  from assms e m' multi o have
    r: "bind (if training st3
                then fold_err (build_backtranslator a m')
                       (deref (st3\<lparr>sequence_generators := []\<rparr>)
                          (lang_pairs (st3\<lparr>sequence_generators := []\<rparr>)))
                       (st3\<lparr>sequence_generators := []\<rparr>)
                else Inr (st3\<lparr>sequence_generators := []\<rparr>)) (\<lambda>st5. Inr (m', st5)) = Inr (m, st')"
    unfolding bt_build_model_def Let_def by (simp add: bind_def)
  then have mm: "m' = m" by (auto simp: bind_Inr_iff)
  from r have "(if training st3
                then fold_err (build_backtranslator a m')
                       (deref (st3\<lparr>sequence_generators := []\<rparr>)
                          (lang_pairs (st3\<lparr>sequence_generators := []\<rparr>)))
                       (st3\<lparr>sequence_generators := []\<rparr>)
                else Inr (st3\<lparr>sequence_generators := []\<rparr>)) = Inr st'"
    by (auto simp: bind_Inr_iff)
  with e m' multi o mm show ?thesis by blast
qed

lemma bt_build_model_final_frame:
  assumes "(if training st3
                then fold_err (build_backtranslator a m)
                       (deref (st3\<lparr>sequence_generators := []\<rparr>)
                          (lang_pairs (st3\<lparr>sequence_generators := []\<rparr>)))
                       (st3\<lparr>sequence_generators := []\<rparr>)
                else Inr (st3\<lparr>sequence_generators := []\<rparr>)) = Inr st'"
  shows "bt_frame st3 st'"
proof (cases "training st3")
  case True
  with assms have "bt_frame (st3\<lparr>sequence_generators := []\<rparr>) st'"
    using build_backtranslators_frame by simp
  then show ?thesis by (simp add: bt_frame_def)
next
  case False
  with assms show ?thesis by (auto simp: bt_frame_def)
qed

text \<open>
  Claim C10. Whenever \<^verbatim>\<open>BtTranslationTask.build_model\<close> returns, \<^verbatim>\<open>self.lang_pairs\<close>
  holds the same list of pairs as before the call, and the model was built by
  \<^verbatim>\<open>models.build_model\<close> on a task whose \<^verbatim>\<open>lang_pairs\<close> was that list followed by the
  reverse pair \<^verbatim>\<open>tgt-src\<close> of each of its pairs \<^verbatim>\<open>src-tgt\<close>, in order.
\<close>

theorem bt_build_model_restores_lang_pairs:
  "bt_build_model models_build_model st a = Inr (m, st') \<longrightarrow>
     deref st' (lang_pairs st') = deref st (lang_pairs st)
     \<and> (lang_pairs st < length (heap st) \<longrightarrow>
          (\<exists>revs st1. models_build_model a st1 = Inr m
              \<and> deref st1 (lang_pairs st1) = deref st (lang_pairs st) @ revs
              \<and> length revs = length (deref st (lang_pairs st))
              \<and> (\<forall>i < length revs.
                    get_dds_bt_key (deref st (lang_pairs st) ! i) = Inr (revs ! i))))"
proof (intro impI conjI)
  assume res: "bt_build_model models_build_model st a = Inr (m, st')"
  from bt_build_model_Inr[OF res] obtain ext st3
    where e: "append_reverse_pairs (deref st (lang_pairs st)) (deref st (lang_pairs st)) = Inr ext"
      and mb: "models_build_model a (st\<lparr>heap := (heap st)[lang_pairs st := ext]\<rparr>) = Inr m"
      and o: "build_data_optimizer
                 (st\<lparr>heap := (heap st)[lang_pairs st := ext] @ [deref st (lang_pairs st)],
                     lang_pairs := length (heap st)\<rparr>) m = Inr st3"
      and f: "(if training st3
                then fold_err (build_backtranslator a m)
                       (deref (st3\<lparr>sequence_generators := []\<rparr>)
                          (lang_pairs (st3\<lparr>sequence_generators := []\<rparr>)))
                       (st3\<lparr>sequence_generators := []\<rparr>)
                else Inr (st3\<lparr>sequence_generators := []\<rparr>)) = Inr st'"
    by blast
  from build_data_optimizer_frame[OF o] bt_build_model_final_frame[OF f]
  have h: "heap st' = (heap st)[lang_pairs st := ext] @ [deref st (lang_pairs st)]"
    and l: "lang_pairs st' = length (heap st)"
    by (simp_all add: bt_frame_def)
  show "deref st' (lang_pairs st') = deref st (lang_pairs st)"
    unfolding deref_def h l by (simp add: nth_append)
  {
    assume valid: "lang_pairs st < length (heap st)"
    from append_reverse_pairs_Inr[OF e] obtain revs
      where x: "ext = deref st (lang_pairs st) @ revs"
        and n: "length revs = length (deref st (lang_pairs st))"
        and k: "\<forall>i < length (deref st (lang_pairs st)).
                  get_dds_bt_key (deref st (lang_pairs st) ! i) = Inr (revs ! i)"
      by blast
    let ?st1 = "st\<lparr>heap := (heap st)[lang_pairs st := ext]\<rparr>"
    have "deref ?st1 (lang_pairs ?st1) = deref st (lang_pairs st) @ revs"
      using valid x by (simp add: deref_def)
    with mb n k
    have "\<exists>revs st1. models_build_model a st1 = Inr m
              \<and> deref st1 (lang_pairs st1) = deref st (lang_pairs st) @ revs
              \<and> length revs = length (deref st (lang_pairs st))
              \<and> (\<forall>i < length revs.
                    get_dds_bt_key (deref st (lang_pairs st) ! i) = Inr (revs ! i))"
      by (intro exI[of _ revs] exI[of _ ?st1]) simp
  }
  then show "lang_pairs st < length (heap st) \<Longrightarrow>
          (\<exists>revs st1. models_build_model a st1 = Inr m
              \<and> deref st1 (lang_pairs st1) = deref st (lang_pairs st) @ revs
              \<and> length revs = length (deref st (lang_pairs st))
              \<and> (\<forall>i < length revs.
                    get_dds_bt_key (deref st (lang_pairs st) ! i) = Inr (revs ! i)))" .
qed

theorem bt_build_model_restores_lang_pairs_witness:
  "\<not> isl (bt_build_model example_models_build_model example_bt_task example_args)
   \<and> deref (snd (projr (bt_build_model example_models_build_model example_bt_task example_args)))
        (lang_pairs (snd (projr
           (bt_build_model example_models_build_model example_bt_task example_args))))
       = [''en-de'', ''en-fr'']
   \<and> map fst (models (fst (projr
           (bt_build_model example_models_build_model example_bt_task example_args))))
       = [''en-de'', ''en-fr'', ''de-en'', ''fr-en'']"
proof -
  let ?r = "bt_build_model example_models_build_model example_bt_task example_args"
  have ni: "\<not> isl ?r" by code_simp
  have ms: "map fst (models (fst (projr ?r))) = [''en-de'', ''en-fr'', ''de-en'', ''fr-en'']"
    by code_simp
  from ni obtain m st' where r: "?r = Inr (m, st')"
    by (cases ?r) auto
  from bt_build_model_restores_lang_pairs[of example_models_build_model example_bt_task
      example_args m st'] r
  have "deref st' (lang_pairs st') = deref example_bt_task (lang_pairs example_bt_task)"
    by blast
  also have "\<dots> = [''en-de'', ''en-fr'']"
    by (simp add: example_bt_task_def deref_def)
  finally have "deref st' (lang_pairs st') = [''en-de'', ''en-fr'']" .
  with ni ms r show ?thesis by simp
qed

lemma sublist_join_str:
  "m \<in> set ms \<Longrightarrow> sublist m (join_str sep ms)"
proof (induction sep ms rule: join_str.induct)
  case (1 sep)
  then show ?case by simp
next
  case (2 sep x)
  then show ?case by simp
next
  case (3 sep x y ys)
  show ?case
  proof (cases "m = x")
    case True
    then show ?thesis by (simp add: sublist_append_rightI)
  next
    case False
    with "3.prems" have "m \<in> set (y # ys)" by simp
    then have "sublist m (join_str sep (y # ys))" by (rule "3.IH")
    then have "sublist m ((x @ sep) @ join_str sep (y # ys))"
      by (simp add: sublist_append)
    then show ?thesis by simp
  qed
qed

lemma check_args_raises:
  assumes "m \<in> set (check_args_messages st a)"
  shows "\<exists>msg. build_model mbm st a = Inl (ValueError msg) \<and> sublist m msg"
proof -
  from assms have ne: "length (check_args_messages st a) > 0" by (cases "check_args_messages st a") auto
  then have "build_model mbm st a = Inl (ValueError (join_str '' '' (check_args_messages st a)))"
    by (simp add: build_model_def check_args_def bind_def Let_def)
  with sublist_join_str[OF assms] show ?thesis by blast
qed

lemma check_args_passes:
  assumes "set (deref st (arg_lang_pairs (args st))) = set (deref st (arg_lang_pairs a))"
    and "encoder_langtok (args st) = encoder_langtok a"
    and "decoder_langtok (args st) = decoder_langtok a"
  shows "check_args st a = Inr ()"
  using assms by (simp add: check_args_def check_args_messages_def)

lemma bt_build_model_not_multi:
  assumes "append_reverse_pairs (deref st (lang_pairs st)) (deref st (lang_pairs st)) = Inr ext"
    and "mbm a (st\<lparr>heap := (heap st)[lang_pairs st := ext]\<rparr>) = Inr m"
    and "\<not> is_multi_model m"
  shows "bt_build_model mbm st a = Inl (ValueError
           ''SemisupervisedTranslationTask requires a FairseqMultiModel architecture'')"
  using assms by (simp add: bt_build_model_def bind_def Let_def)

lemma build_backtranslator_ignores:
  "build_backtranslator
     (a\<lparr>encoder_langtok := enc, decoder_langtok := dec, arg_lang_pairs := pairs\<rparr>) m lp s
   = build_backtranslator a m lp s"
  by (simp add: build_backtranslator_def)

lemma build_backtranslator_ignores_fun:
  "build_backtranslator
     (a\<lparr>encoder_langtok := enc, decoder_langtok := dec, arg_lang_pairs := pairs\<rparr>) m
   = build_backtranslator a m"
  by (intro ext) (rule build_backtranslator_ignores)

lemma bt_build_model_ignores:
  assumes "\<forall>s. mbm (a\<lparr>encoder_langtok := enc, decoder_langtok := dec,
                        arg_lang_pairs := pairs\<rparr>) s = mbm a s"
  shows "bt_build_model mbm st
           (a\<lparr>encoder_langtok := enc, decoder_langtok := dec, arg_lang_pairs := pairs\<rparr>)
         = bt_build_model mbm st a"
  unfolding bt_build_model_def build_backtranslator_ignores_fun using assms by simp

text \<open>
  Claim C6 (as amended). \<^verbatim>\<open>MultilingualTranslationTask.build_model\<close> compares the
  language-pair set, the encoder token mode and the decoder token flag of the caller's
  arguments with the task's and raises \<open>ValueError\<close> with a message that contains the text
  of every discrepancy; without a discrepancy it raises \<open>ValueError\<close> exactly when the model
  that was built is not a \<^verbatim>\<open>FairseqMultiModel\<close>. \<^verbatim>\<open>BtTranslationTask.build_model\<close>
  returns only a \<^verbatim>\<open>FairseqMultiModel\<close> and raises \<open>ValueError\<close> when the model that was
  built is not one; it does not compare the arguments.
\<close>

theorem build_model_validation:
  "(set (deref st (arg_lang_pairs (args st))) \<noteq> set (deref st (arg_lang_pairs a)) \<longrightarrow>
      (\<exists>msg. build_model mbm st a = Inl (ValueError msg)
         \<and> sublist (''--lang-pairs should include all the language pairs ''
                      @ py_repr_list (deref st (arg_lang_pairs a)) @ ''.'') msg))
   \<and> (encoder_langtok (args st) \<noteq> encoder_langtok a \<longrightarrow>
      (\<exists>msg. build_model mbm st a = Inl (ValueError msg)
         \<and> sublist (''--encoder-langtok should be '' @ str_opt (encoder_langtok a) @ ''.'') msg))
   \<and> (decoder_langtok (args st) \<noteq> decoder_langtok a \<longrightarrow>
      (\<exists>msg. build_model mbm st a = Inl (ValueError msg)
         \<and> sublist (''--decoder-langtok should '' @ (if decoder_langtok a then '''' else ''not'')
                      @ '' be set.'') msg))
   \<and> (set (deref st (arg_lang_pairs (args st))) = set (deref st (arg_lang_pairs a))
        \<and> encoder_langtok (args st) = encoder_langtok a
        \<and> decoder_langtok (args st) = decoder_langtok a \<longrightarrow>
      build_model mbm st a =
        (case mbm a st of
           Inl e \<Rightarrow> Inl e
         | Inr m \<Rightarrow>
             if is_multi_model m then Inr m
             else Inl (ValueError
               ''MultilingualTranslationTask requires a FairseqMultiModel architecture'')))
   \<and> (bt_build_model bt_mbm bst a = Inr (bm, bst') \<longrightarrow> is_multi_model bm)
   \<and> (append_reverse_pairs (deref bst (lang_pairs bst)) (deref bst (lang_pairs bst)) = Inr ext
        \<and> bt_mbm a (bst\<lparr>heap := (heap bst)[lang_pairs bst := ext]\<rparr>) = Inr bm
        \<and> \<not> is_multi_model bm \<longrightarrow>
      bt_build_model bt_mbm bst a = Inl (ValueError
        ''SemisupervisedTranslationTask requires a FairseqMultiModel architecture''))
   \<and> ((\<forall>s. bt_mbm (a\<lparr>encoder_langtok := enc, decoder_langtok := dec,
                          arg_lang_pairs := pairs\<rparr>) s = bt_mbm a s) \<longrightarrow>
      bt_build_model bt_mbm bst
        (a\<lparr>encoder_langtok := enc, decoder_langtok := dec, arg_lang_pairs := pairs\<rparr>)
      = bt_build_model bt_mbm bst a)"
proof (intro conjI impI)
  assume "set (deref st (arg_lang_pairs (args st))) \<noteq> set (deref st (arg_lang_pairs a))"
  then have "(''--lang-pairs should include all the language pairs ''
                      @ py_repr_list (deref st (arg_lang_pairs a)) @ ''.'')
             \<in> set (check_args_messages st a)"
    by (auto simp: check_args_messages_def)
  then show "\<exists>msg. build_model mbm st a = Inl (ValueError msg)
         \<and> sublist (''--lang-pairs should include all the language pairs ''
                      @ py_repr_list (deref st (arg_lang_pairs a)) @ ''.'') msg"
    by (rule check_args_raises)
next
  assume "encoder_langtok (args st) \<noteq> encoder_langtok a"
  then have "(''--encoder-langtok should be '' @ str_opt (encoder_langtok a) @ ''.'')
             \<in> set (check_args_messages st a)"
    by (simp add: check_args_messages_def)
  then show "\<exists>msg. build_model mbm st a = Inl (ValueError msg)
         \<and> sublist (''--encoder-langtok should be '' @ str_opt (encoder_langtok a) @ ''.'') msg"
    by (rule check_args_raises)
next
  assume "decoder_langtok (args st) \<noteq> decoder_langtok a"
  then have "(''--decoder-langtok should '' @ (if decoder_langtok a then '''' else ''not'')
                      @ '' be set.'')
             \<in> set (check_args_messages st a)"
    by (simp add: check_args_messages_def)
  then show "\<exists>msg. build_model mbm st a = Inl (ValueError msg)
         \<and> sublist (''--decoder-langtok should '' @ (if decoder_langtok a then '''' else ''not'')
                      @ '' be set.'') msg"
    by (rule check_args_raises)
next
  assume a: "set (deref st (arg_lang_pairs (args st))) = set (deref st (arg_lang_pairs a))
        \<and> encoder_langtok (args st) = encoder_langtok a
        \<and> decoder_langtok (args st) = decoder_langtok a"
  then have "check_args st a = Inr ()" using check_args_passes by blast
  then show "build_model mbm st a =
        (case mbm a st of
           Inl e \<Rightarrow> Inl e
         | Inr m \<Rightarrow>
             if is_multi_model m then Inr m
             else Inl (ValueError
               ''MultilingualTranslationTask requires a FairseqMultiModel architecture''))"
    by (simp add: build_model_def bind_def split: sum.splits)
next
  assume "bt_build_model bt_mbm bst a = Inr (bm, bst')"
  from bt_build_model_Inr[OF this] show "is_multi_model bm" by blast
next
  assume "append_reverse_pairs (deref bst (lang_pairs bst)) (deref bst (lang_pairs bst)) = Inr ext
        \<and> bt_mbm a (bst\<lparr>heap := (heap bst)[lang_pairs bst := ext]\<rparr>) = Inr bm
        \<and> \<not> is_multi_model bm"
  then show "bt_build_model bt_mbm bst a = Inl (ValueError
        ''SemisupervisedTranslationTask requires a FairseqMultiModel architecture'')"
    using bt_build_model_not_multi by blast
next
  assume "\<forall>s. bt_mbm (a\<lparr>encoder_langtok := enc, decoder_langtok := dec,
                          arg_lang_pairs := pairs\<rparr>) s = bt_mbm a s"
  then show "bt_build_model bt_mbm bst
        (a\<lparr>encoder_langtok := enc, decoder_langtok := dec, arg_lang_pairs := pairs\<rparr>)
      = bt_build_model bt_mbm bst a"
    by (rule bt_build_model_ignores)
qed

text \<open>
  The claim as written fails twice: the back-translation task builds its model from
  arguments whose decoder token flag differs from the task's, and the multilingual task
  accepts a \<^verbatim>\<open>FairseqMultiModel\<close> that has no sub-model for the configured pair
  \<^verbatim>\<open>en-fr\<close>.
\<close>

theorem bt_build_model_skips_validation_counterexample:
  "decoder_langtok (args example_bt_task) \<noteq> decoder_langtok mismatched_args
   \<and> \<not> isl (bt_build_model example_models_build_model example_bt_task mismatched_args)
   \<and> ''en-fr'' \<in> set (deref example_task (lang_pairs example_task))
   \<and> build_model single_pair_model example_task example_args
       = Inr \<lparr>is_multi_model = True, models = [(''en-de'', 0)]\<rparr>"
  by code_simp

theorem build_model_validation_witness:
  "build_model example_models_build_model example_task
       (example_args\<lparr>encoder_langtok := None, decoder_langtok := True\<rparr>)
     = Inl (ValueError ''--encoder-langtok should be None. --decoder-langtok should  be set.'')
   \<and> build_model example_models_build_model example_task example_args
     = Inr \<lparr>is_multi_model = True, models = [(''en-de'', 0), (''en-fr'', 1)]\<rparr>
   \<and> build_model plain_model_builder example_task example_args
     = Inl (ValueError ''MultilingualTranslationTask requires a FairseqMultiModel architecture'')
   \<and> bt_build_model plain_model_builder example_bt_task example_args
     = Inl (ValueError ''SemisupervisedTranslationTask requires a FairseqMultiModel architecture'')
   \<and> is_multi_model (fst (projr
         (bt_build_model example_models_build_model example_bt_task example_args)))
   \<and> bt_build_model example_models_build_model example_bt_task
         (example_args\<lparr>encoder_langtok := None, decoder_langtok := True,
                        arg_lang_pairs := 1\<rparr>)
       = bt_build_model example_models_build_model example_bt_task example_args"
proof -
  let ?bad = "example_args\<lparr>encoder_langtok := None, decoder_langtok := True\<rparr>"
  have ign: "\<forall>s::bt_task. example_models_build_model
                 (example_args\<lparr>encoder_langtok := None, decoder_langtok := True,
                                arg_lang_pairs := 1\<rparr>) s
               = example_models_build_model example_args s"
    by (simp add: example_models_build_model_def)
  from build_model_validation[where a = example_args
      and bt_mbm = example_models_build_model and bst = example_bt_task
      and enc = None and dec = True and pairs = 1] ign
  have indep: "bt_build_model example_models_build_model example_bt_task
         (example_args\<lparr>encoder_langtok := None, decoder_langtok := True,
                        arg_lang_pairs := 1\<rparr>)
       = bt_build_model example_models_build_model example_bt_task example_args"
    by blast
  have same: "set (deref example_task (arg_lang_pairs (args example_task)))
                = set (deref example_task (arg_lang_pairs example_args))
        \<and> encoder_langtok (args example_task) = encoder_langtok example_args
        \<and> decoder_langtok (args example_task) = decoder_langtok example_args"
    by (simp add: example_task_def)
  have enc: "encoder_langtok (args example_task) \<noteq> encoder_langtok ?bad"
    by (simp add: example_task_def example_args_def)
  from build_model_validation[of example_task ?bad example_models_build_model] enc
  obtain msg where "build_model example_models_build_model example_task ?bad
      = Inl (ValueError msg)"
    by blast
  moreover have "build_model example_models_build_model example_task ?bad
     = Inl (ValueError ''--encoder-langtok should be None. --decoder-langtok should  be set.'')"
    by code_simp
  moreover from build_model_validation[of example_task example_args
      example_models_build_model] same
  have "build_model example_models_build_model example_task example_args =
        (case example_models_build_model example_args example_task of
           Inl e \<Rightarrow> Inl e
         | Inr m \<Rightarrow>
             if is_multi_model m then Inr m
             else Inl (ValueError
               ''MultilingualTranslationTask requires a FairseqMultiModel architecture''))"
    by blast
  moreover have "(case example_models_build_model example_args example_task of
           Inl e \<Rightarrow> Inl e
         | Inr m \<Rightarrow>
             if is_multi_model m then Inr m
             else Inl (ValueError
               ''MultilingualTranslationTask requires a FairseqMultiModel architecture''))
       = Inr \<lparr>is_multi_model = True, models = [(''en-de'', 0), (''en-fr'', 1)]\<rparr>"
    by code_simp
  moreover have "build_model plain_model_builder example_task example_args
     = Inl (ValueError ''MultilingualTranslationTask requires a FairseqMultiModel architecture'')"
    by code_simp
  moreover have "bt_build_model plain_model_builder example_bt_task example_args
     = Inl (ValueError ''SemisupervisedTranslationTask requires a FairseqMultiModel architecture'')"
    by code_simp
  moreover have "is_multi_model (fst (projr
         (bt_build_model example_models_build_model example_bt_task example_args)))"
    by code_simp
  ultimately show ?thesis using indep by simp
qed

section \<open>Properties of dataset loading\<close>

text \<open>
  Claim C5. The claim says that a configured pair with no parallel files under either
  naming is skipped. On the split \<^verbatim>\<open>train\<close>, with the pairs \<^verbatim>\<open>en-de\<close> and \<^verbatim>\<open>en-fr\<close>, a
  directory that holds parallel files for \<^verbatim>\<open>en-de\<close> only and the monolingual files of both
  target languages makes \<^verbatim>\<open>load_dataset\<close> raise \<open>KeyError\<close> for \<^verbatim>\<open>en-fr\<close>: the first loop
  skips the pair, and the loop over the back-translation datasets then looks the pair up
  in \<^verbatim>\<open>src_datasets\<close> through \<^verbatim>\<open>language_pair_dataset\<close>.
\<close>

theorem load_dataset_partial_training_data:
  "deref example_built_task (lang_pairs example_built_task) = [''en-de'', ''en-fr'']
   \<and> \<not> split_exists no_raw_files partial_directory example_built_task ''/data'' ''train''
         (Some ''en'') (Some ''fr'') ''en''
   \<and> \<not> split_exists no_raw_files partial_directory example_built_task ''/data'' ''train''
         (Some ''fr'') (Some ''en'') ''en''
   \<and> split_exists no_raw_files partial_directory example_built_task ''/data'' ''train''
         (Some ''en'') (Some ''de'') ''en''
   \<and> split_exists no_raw_files partial_directory example_built_task ''/data'' ''train''
         (Some ''de'') None ''de''
   \<and> split_exists no_raw_files partial_directory example_built_task ''/data'' ''train''
         (Some ''fr'') None ''fr''
   \<and> load_dataset no_raw_files partial_directory example_loader example_built_task ''train'' 0
       = Inl (KeyError ''en-fr'')"
  by code_simp

section \<open>Back-translation datasets and closures\<close>



























end
